theory Spec2Isabelle
  imports Main
begin

section \<open>Ruby values, exceptions and the native library\<close>

text \<open>
  The two source files are glue between the Ruby runtime and libxml2. Everything
  libxml2 does is a parameter of the model (a record of oracles, \<open>env\<close>); every call
  that goes through an oracle is appended to a trace together with what it returned,
  so that "the native call was (not) attempted" is a statement about the trace.
  Pointers are \<open>addr option\<close>, with \<open>None\<close> for \<open>NULL\<close>.
\<close>

type_synonym addr = nat
type_synonym rb_encoding = string

datatype free_func = Rxml_dtd_free

record RData =
  dfree :: "free_func option"
  data :: "addr option"

text \<open>
  \<open>RData\<close> is the part of Ruby's \<open>struct RData\<close> the code touches: the free hook
  (\<open>None\<close> is \<open>NULL\<close>, \<open>Some Rxml_dtd_free\<close> the pointer to \<open>rxml_dtd_free\<close>) and
  \<open>DATA_PTR\<close>.
\<close>

datatype VALUE =
    Qnil
  | Qtrue
  | Qfalse
  | Fixnum int
  | String string rb_encoding
  | Symbol string
  | Hash "(VALUE \<times> VALUE) list"
  | Document addr
  | Dtd RData
  | Object string

text \<open>
  \<open>String b e\<close> is a Ruby String with bytes \<open>b\<close> and encoding \<open>e\<close>; \<open>Document p\<close> is
  an instance of \<open>cXMLDocument\<close> wrapping the \<open>xmlDocPtr\<close> \<open>p\<close>; \<open>Dtd r\<close> is an instance
  of \<open>cXMLDtd\<close>; \<open>Object c\<close> is any other object (an IO, an Array, ...).
\<close>

definition NIL_P :: "VALUE \<Rightarrow> bool" where
  "NIL_P v = (v = Qnil)"

definition RTEST :: "VALUE \<Rightarrow> bool" where
  "RTEST v = (v \<noteq> Qnil \<and> v \<noteq> Qfalse)"

datatype exn =
    TypeError string
  | ArgError string
  | RangeError
  | NoMethodError string
  | XMLError string
  | NullDeref

text \<open>
  \<open>NullDeref\<close> is not a Ruby exception: it stands for the C code reading through a
  \<open>NULL\<close> or dangling pointer.
\<close>

definition rxml_raise :: "string \<Rightarrow> exn" where
  \<comment> \<open>Modelled from the spec: \<open>rxml_raise\<close> (ruby_xml_error.c, not among the sources)
      raises an error that "always carries the native library's last-error diagnostic".\<close>
  "rxml_raise xerror = XMLError xerror"

definition cstr :: "string \<Rightarrow> string" where
  \<comment> \<open>what C sees of a byte string: the bytes before the first NUL\<close>
  "cstr b = takeWhile (\<lambda>c. c \<noteq> CHR 0x00) b"

definition scan_arg :: "VALUE list \<Rightarrow> nat \<Rightarrow> VALUE" where
  \<comment> \<open>\<open>rb_scan_args\<close>: an optional argument that was not passed is \<open>Qnil\<close>\<close>
  "scan_arg argv i = (if i < length argv then argv ! i else Qnil)"

definition Check_Type_STRING :: "VALUE \<Rightarrow> exn + string" where
  \<comment> \<open>\<open>Check_Type(v, T_STRING)\<close> followed by \<open>StringValuePtr(v)\<close>\<close>
  "Check_Type_STRING v =
     (case v of
        String b e \<Rightarrow> Inr (cstr b)
      | _ \<Rightarrow> Inl (TypeError ''wrong argument type (expected String)''))"

subsection \<open>Native objects and native calls\<close>

record xmlDtd =
  type :: int
  name :: "string option"
  ExternalID :: "string option"
  SystemID :: "string option"
  doc :: "addr option"
  parent :: "addr option"

record 'n xml_world =
  dtds :: "addr \<Rightarrow> xmlDtd option"
  xmlBuffers :: "addr \<Rightarrow> string option"
  xmlGetLastError :: string
  doc_out :: "addr option"
  hidden :: 'n

text \<open>
  The native memory the adapter reads itself: the DTD objects (\<open>xdtd->doc\<close>, ...), the
  contents of the \<open>xmlBuffer\<close>s (\<open>buffer->content\<close>, \<open>buffer->use\<close> being its length) and
  the last error; \<open>doc_out\<close> is the \<open>xmlDocPtr\<close> that \<open>xmlNewTextWriterDoc\<close> stores
  through its first argument. \<open>hidden\<close> is everything else libxml2 keeps.
\<close>

datatype ptr_call =
    XmlNewDtd "addr option" "string option" string string
  | XmlCreateIntSubset "addr option" "string option" string string
  | XmlParseDTD string string
  | XmlAllocParserInputBuffer
  | XmlIOParseDTD "addr option"
  | XmlOutputBufferCreateIO addr rb_encoding
  | XmlNewTextWriter "addr option"
  | XmlNewTextWriterFilename string
  | XmlBufferCreate
  | XmlNewTextWriterMemory "addr option"
  | XmlNewTextWriterDoc

datatype writer_fn =
    Flush
  | SetIndent bool
  | SetIndentString "string option"
  | SetQuoteChar char
  | WriteComment "string option"
  | WriteCDATA "string option"
  | WriteElement "string option" "string option"
  | WriteElementNS "string option" "string option" "string option" "string option"
  | WriteAttribute "string option" "string option"
  | WriteAttributeNS "string option" "string option" "string option" "string option"
  | WritePI "string option" "string option"
  | WriteString "string option"
  | WriteRaw "string option"
  | StartAttribute "string option"
  | StartAttributeNS "string option" "string option" "string option"
  | EndAttribute
  | StartComment
  | EndComment
  | StartElement "string option"
  | StartElementNS "string option" "string option" "string option"
  | EndElement
  | FullEndElement
  | StartCDATA
  | EndCDATA
  | StartDocument "string option" "string option" "string option"
  | EndDocument
  | StartPI "string option"
  | EndPI
  | StartDTD "string option" "string option" "string option"
  | StartDTDElement "string option"
  | StartDTDEntity bool "string option"
  | StartDTDAttlist "string option"
  | EndDTD
  | EndDTDEntity
  | EndDTDAttlist
  | EndDTDElement
  | WriteDTD "string option" "string option" "string option" "string option"
  | WriteDTDAttlist "string option" "string option"
  | WriteDTDElement "string option" "string option"
  | WriteDTDEntity bool "string option" "string option" "string option" "string option" "string option"
  | WriteDTDExternalEntity bool "string option" "string option" "string option" "string option"
  | WriteDTDExternalEntityContents "string option" "string option" "string option"
  | WriteDTDInternalEntity bool "string option" "string option"
  | WriteDTDNotation "string option" "string option" "string option"

datatype int_call =
    XmlParserInputBufferPush "addr option" nat string
  | XmlTextWriter writer_fn addr

text \<open>
  \<open>XmlTextWriter (StartElement n) w\<close> is the call \<open>xmlTextWriterStartElement(w, n)\<close>, and
  so on for each function of libxml2's xmlwriter.h.
\<close>

datatype void_call =
    XmlFreeDtd addr
  | XmlSetTreeDoc addr "addr option"
  | XmlBufferFree addr
  | XmlBufferEmpty addr
  | XmlFreeTextWriter addr

datatype xml_event =
    CallPtr ptr_call "addr option"
  | CallInt int_call int
  | CallVoid void_call

record 'n env =
  xml_ptr :: "ptr_call \<Rightarrow> 'n xml_world \<Rightarrow> addr option \<times> 'n xml_world"
  xml_int :: "int_call \<Rightarrow> 'n xml_world \<Rightarrow> int \<times> 'n xml_world"
  xml_void :: "void_call \<Rightarrow> 'n xml_world \<Rightarrow> 'n xml_world"
  xmlGetCharEncodingName :: "int \<Rightarrow> string option"
  rxml_figure_encoding :: "string option \<Rightarrow> rb_encoding"
  rb_enc_get :: "VALUE \<Rightarrow> rb_encoding option"
  rb_str_conv_enc :: "string \<Rightarrow> rb_encoding \<Rightarrow> rb_encoding \<Rightarrow> string"

text \<open>
  \<open>xml_ptr\<close>, \<open>xml_int\<close> and \<open>xml_void\<close> are libxml2's functions by return type.
  \<open>xmlGetCharEncodingName\<close> is libxml2's table of encoding names; \<open>rb_enc_get\<close> and
  \<open>rb_str_conv_enc\<close> belong to the Ruby runtime, \<open>rxml_figure_encoding\<close> to
  ruby_xml_encoding.c (not among the sources); the four are pure and are not traced.
\<close>

record 'n rt =
  world :: "'n xml_world"
  trace :: "xml_event list"

definition call_ptr :: "'n env \<Rightarrow> ptr_call \<Rightarrow> 'n rt \<Rightarrow> addr option \<times> 'n rt" where
  "call_ptr E c s =
     (let (r, w) = xml_ptr E c (world s)
      in (r, \<lparr>world = w, trace = trace s @ [CallPtr c r]\<rparr>))"

definition call_int :: "'n env \<Rightarrow> int_call \<Rightarrow> 'n rt \<Rightarrow> int \<times> 'n rt" where
  "call_int E c s =
     (let (r, w) = xml_int E c (world s)
      in (r, \<lparr>world = w, trace = trace s @ [CallInt c r]\<rparr>))"

definition call_void :: "'n env \<Rightarrow> void_call \<Rightarrow> 'n rt \<Rightarrow> 'n rt" where
  "call_void E c s = \<lparr>world = xml_void E c (world s), trace = trace s @ [CallVoid c]\<rparr>"

definition calls_made :: "'n rt \<Rightarrow> 'n rt \<Rightarrow> xml_event list" where
  \<comment> \<open>the native calls made between state \<open>s\<close> and the later state \<open>s'\<close>\<close>
  "calls_made s s' = drop (length (trace s)) (trace s')"

section \<open>ruby_xml_dtd.c\<close>

definition rxml_dtd_free :: "'n env \<Rightarrow> addr \<Rightarrow> 'n rt \<Rightarrow> 'n rt option" where
  \<comment> \<open>\<open>None\<close>: \<open>xdtd\<close> does not point to a DTD object (the C code reads freed memory)\<close>
  "rxml_dtd_free E xdtd s =
     (case dtds (world s) xdtd of
        None \<Rightarrow> None
      | Some d \<Rightarrow>
          if doc d = None \<and> parent d = None
          then Some (call_void E (XmlFreeDtd xdtd) s)
          else Some s)"

definition rxml_dtd_alloc :: "RData" where
  "rxml_dtd_alloc = \<lparr>dfree = Some Rxml_dtd_free, data = None\<rparr>"

definition rxml_dtd_wrap :: "addr \<Rightarrow> RData" where
  "rxml_dtd_wrap xdtd = \<lparr>dfree = None, data = Some xdtd\<rparr>"

definition rb_gc_collect :: "'n env \<Rightarrow> RData \<Rightarrow> 'n rt \<Rightarrow> 'n rt option" where
  \<comment> \<open>what Ruby's collector does with a \<open>T_DATA\<close> object of this class: the free hook is
      called on \<open>DATA_PTR\<close> when both are set\<close>
  "rb_gc_collect E obj s =
     (case data obj of
        None \<Rightarrow> Some s
      | Some xdtd \<Rightarrow>
          (case dfree obj of
             None \<Rightarrow> Some s
           | Some Rxml_dtd_free \<Rightarrow> rxml_dtd_free E xdtd s))"

definition rxml_new_cstr :: "'n env \<Rightarrow> string \<Rightarrow> string option \<Rightarrow> VALUE" where
  \<comment> \<open>Modelled from the spec: \<open>rxml_new_cstr\<close> (not among the sources) makes the Ruby
      String of a native text field, "the text value ... as-is", in the encoding
      \<open>rxml_figure_encoding\<close> gives for its second argument.\<close>
  "rxml_new_cstr E xstr xencoding = String xstr (rxml_figure_encoding E xencoding)"

definition Data_Get_Struct :: "RData \<Rightarrow> 'n rt \<Rightarrow> exn + xmlDtd" where
  \<comment> \<open>\<open>Data_Get_Struct(self, xmlDtd, xdtd)\<close> and the first read through \<open>xdtd\<close>\<close>
  "Data_Get_Struct self s =
     (case data self of
        None \<Rightarrow> Inl NullDeref
      | Some p \<Rightarrow> (case dtds (world s) p of None \<Rightarrow> Inl NullDeref | Some d \<Rightarrow> Inr d))"

definition rxml_dtd_external_id_get :: "'n env \<Rightarrow> RData \<Rightarrow> 'n rt \<Rightarrow> exn + VALUE" where
  "rxml_dtd_external_id_get E self s =
     (case Data_Get_Struct self s of
        Inl e \<Rightarrow> Inl e
      | Inr xdtd \<Rightarrow>
          (case ExternalID xdtd of
             None \<Rightarrow> Inr Qnil
           | Some x \<Rightarrow> Inr (rxml_new_cstr E x None)))"

definition rxml_dtd_name_get :: "'n env \<Rightarrow> RData \<Rightarrow> 'n rt \<Rightarrow> exn + VALUE" where
  "rxml_dtd_name_get E self s =
     (case Data_Get_Struct self s of
        Inl e \<Rightarrow> Inl e
      | Inr xdtd \<Rightarrow>
          (case name xdtd of
             None \<Rightarrow> Inr Qnil
           | Some x \<Rightarrow> Inr (rxml_new_cstr E x None)))"

definition rxml_dtd_uri_get :: "'n env \<Rightarrow> RData \<Rightarrow> 'n rt \<Rightarrow> exn + VALUE" where
  "rxml_dtd_uri_get E self s =
     (case Data_Get_Struct self s of
        Inl e \<Rightarrow> Inl e
      | Inr xdtd \<Rightarrow>
          (case SystemID xdtd of
             None \<Rightarrow> Inr Qnil
           | Some x \<Rightarrow> Inr (rxml_new_cstr E x None)))"

definition rxml_dtd_type :: "RData \<Rightarrow> 'n rt \<Rightarrow> exn + VALUE" where
  "rxml_dtd_type self s =
     (case Data_Get_Struct self s of
        Inl e \<Rightarrow> Inl e
      | Inr xdtd \<Rightarrow> Inr (Fixnum (type xdtd)))"

definition dtd_new_subset ::
  "'n env \<Rightarrow> VALUE list \<Rightarrow> RData \<Rightarrow> 'n rt \<Rightarrow> (exn + RData) \<times> 'n rt" where
  \<comment> \<open>\<open>case 3: case 4: case 5:\<close> of \<open>rxml_dtd_initialize\<close>\<close>
  "dtd_new_subset E argv self s =
     (let external = scan_arg argv 0; system = scan_arg argv 1; nm = scan_arg argv 2;
          dc = scan_arg argv 3; internal = scan_arg argv 4
      in case Check_Type_STRING external of
           Inl e \<Rightarrow> (Inl e, s)
         | Inr xpublic \<Rightarrow>
        (case Check_Type_STRING system of
           Inl e \<Rightarrow> (Inl e, s)
         | Inr xsystem \<Rightarrow>
        (case (if nm \<noteq> Qnil then map_sum id Some (Check_Type_STRING nm) else Inr None) of
           Inl e \<Rightarrow> (Inl e, s)
         | Inr xname \<Rightarrow>
        (case (if dc \<noteq> Qnil
               then (case dc of
                       Document p \<Rightarrow> Inr (Some p)
                     | _ \<Rightarrow> Inl (TypeError ''Must pass an LibXML::XML::Document object''))
               else Inr None) of
           Inl e \<Rightarrow> (Inl e, s)
         | Inr xdoc \<Rightarrow>
        (let (xdtd, s1) =
               (if internal = Qnil \<or> internal = Qfalse
                then call_ptr E (XmlNewDtd xdoc xname xpublic xsystem) s
                else call_ptr E (XmlCreateIntSubset xdoc xname xpublic xsystem) s)
         in case xdtd of
              None \<Rightarrow> (Inl (rxml_raise (xmlGetLastError (world s1))), s1)
            | Some p \<Rightarrow>
                (Inr (self\<lparr>dfree := None, data := Some p\<rparr>),
                 call_void E (XmlSetTreeDoc p xdoc) s1))))))"

definition dtd_new_parse ::
  "'n env \<Rightarrow> VALUE list \<Rightarrow> RData \<Rightarrow> 'n rt \<Rightarrow> (exn + RData) \<times> 'n rt" where
  \<comment> \<open>\<open>case 2:\<close> of \<open>rxml_dtd_initialize\<close>\<close>
  "dtd_new_parse E argv self s =
     (let external = scan_arg argv 0; system = scan_arg argv 1
      in case Check_Type_STRING external of
           Inl e \<Rightarrow> (Inl e, s)
         | Inr xpublic \<Rightarrow>
        (case Check_Type_STRING system of
           Inl e \<Rightarrow> (Inl e, s)
         | Inr xsystem \<Rightarrow>
        (let (xdtd, s1) = call_ptr E (XmlParseDTD xpublic xsystem) s
         in case xdtd of
              None \<Rightarrow> (Inl (rxml_raise (xmlGetLastError (world s1))), s1)
            | Some p \<Rightarrow>
                (Inr (self\<lparr>data := Some p\<rparr>), call_void E (XmlSetTreeDoc p None) s1))))"

definition dtd_new_string ::
  "'n env \<Rightarrow> VALUE list \<Rightarrow> RData \<Rightarrow> 'n rt \<Rightarrow> (exn + RData) \<times> 'n rt" where
  \<comment> \<open>\<open>case 1:\<close> of \<open>rxml_dtd_initialize\<close>; \<open>xmlStrdup\<close>, \<open>xmlStrlen\<close> and \<open>xmlFree\<close> only
      copy, measure and release the C string\<close>
  "dtd_new_string E argv self s =
     (let dtd_string = scan_arg argv 0
      in case Check_Type_STRING dtd_string of
           Inl e \<Rightarrow> (Inl e, s)
         | Inr new_string \<Rightarrow>
        (let (buffer, s1) = call_ptr E XmlAllocParserInputBuffer s;
             (pushed, s2) =
                call_int E (XmlParserInputBufferPush buffer (length new_string) new_string) s1;
             (xdtd, s3) = call_ptr E (XmlIOParseDTD buffer) s2
         in case xdtd of
              None \<Rightarrow> (Inl (rxml_raise (xmlGetLastError (world s3))), s3)
            | Some p \<Rightarrow> (Inr (self\<lparr>data := Some p\<rparr>), s3)))"

definition rxml_dtd_initialize ::
  "'n env \<Rightarrow> VALUE list \<Rightarrow> RData \<Rightarrow> 'n rt \<Rightarrow> (exn + RData) \<times> 'n rt" where
  "rxml_dtd_initialize E argv self s =
     (let argc = length argv
      in if argc = 3 \<or> argc = 4 \<or> argc = 5 then dtd_new_subset E argv self s
         else if argc = 2 then dtd_new_parse E argv self s
         else if argc = 1 then dtd_new_string E argv self s
         else (Inl (ArgError ''wrong number of arguments''), s))"

subsection \<open>The method table\<close>

datatype dtd_cfunc =
    Rxml_dtd_initialize
  | Rxml_dtd_external_id_get
  | Rxml_dtd_name_get
  | Rxml_dtd_uri_get
  | Rxml_dtd_type

definition rb_define_method ::
  "(string \<times> 'f \<times> int) list \<Rightarrow> string \<Rightarrow> 'f \<Rightarrow> int \<Rightarrow> (string \<times> 'f \<times> int) list" where
  "rb_define_method tbl nm fn arity = (nm, fn, arity) # tbl"

definition rb_define_alias ::
  "(string \<times> 'f \<times> int) list \<Rightarrow> string \<Rightarrow> string \<Rightarrow> (string \<times> 'f \<times> int) list" where
  "rb_define_alias tbl new old =
     (case map_of tbl old of None \<Rightarrow> tbl | Some m \<Rightarrow> (new, m) # tbl)"

definition rxml_init_dtd :: "(string \<times> dtd_cfunc \<times> int) list" where
  "rxml_init_dtd =
     (let t = [];
          t = rb_define_method t ''initialize'' Rxml_dtd_initialize (- 1);
          t = rb_define_method t ''external_id'' Rxml_dtd_external_id_get 0;
          t = rb_define_method t ''name'' Rxml_dtd_name_get 0;
          t = rb_define_method t ''uri'' Rxml_dtd_uri_get 0;
          t = rb_define_method t ''node_type'' Rxml_dtd_type 0;
          t = rb_define_alias t ''system_id'' ''uri''
      in t)"

definition dtd_apply ::
  "'n env \<Rightarrow> dtd_cfunc \<Rightarrow> VALUE list \<Rightarrow> RData \<Rightarrow> 'n rt \<Rightarrow> (exn + VALUE) \<times> RData \<times> 'n rt" where
  "dtd_apply E fn argv self s =
     (case fn of
        Rxml_dtd_initialize \<Rightarrow>
          (case rxml_dtd_initialize E argv self s of
             (Inl e, s') \<Rightarrow> (Inl e, self, s')
           | (Inr self', s') \<Rightarrow> (Inr (Dtd self'), self', s'))
      | Rxml_dtd_external_id_get \<Rightarrow> (rxml_dtd_external_id_get E self s, self, s)
      | Rxml_dtd_name_get \<Rightarrow> (rxml_dtd_name_get E self s, self, s)
      | Rxml_dtd_uri_get \<Rightarrow> (rxml_dtd_uri_get E self s, self, s)
      | Rxml_dtd_type \<Rightarrow> (rxml_dtd_type self s, self, s))"

definition dtd_send ::
  "'n env \<Rightarrow> string \<Rightarrow> VALUE list \<Rightarrow> RData \<Rightarrow> 'n rt \<Rightarrow> (exn + VALUE) \<times> RData \<times> 'n rt" where
  \<comment> \<open>calling the method \<open>m\<close> of a \<open>cXMLDtd\<close> object: Ruby looks the name up in the
      class's table and checks the argument count against a fixed arity\<close>
  "dtd_send E m argv self s =
     (case map_of rxml_init_dtd m of
        None \<Rightarrow> (Inl (NoMethodError m), self, s)
      | Some (fn, arity) \<Rightarrow>
          if 0 \<le> arity \<and> int (length argv) \<noteq> arity
          then (Inl (ArgError ''wrong number of arguments''), self, s)
          else dtd_apply E fn argv self s)"

section \<open>ruby_xml_writer.c\<close>

datatype rxmlw_output_type =
    RXMLW_OUTPUT_NONE
  | RXMLW_OUTPUT_IO
  | RXMLW_OUTPUT_DOC
  | RXMLW_OUTPUT_STRING

record rxml_writer_object =
  "output" :: VALUE
  encoding :: rb_encoding
  buffer :: "addr option"
  writer :: addr
  output_type :: rxmlw_output_type
  closed :: int

subsection \<open>Release and the write callback of the stream sink\<close>

record ruby_mem =
  rwos :: "addr \<Rightarrow> rxml_writer_object option"
  written :: "(VALUE \<times> string) list"

text \<open>
  \<open>rwos\<close> holds the \<open>ALLOC\<close>ed writer structs by address (the callback's \<open>context\<close> is
  such an address); \<open>written\<close> lists, in order, the bytes each Ruby byte sink received.
\<close>

definition rxml_write_callback :: "VALUE \<Rightarrow> string \<Rightarrow> nat \<Rightarrow> ruby_mem \<Rightarrow> int \<times> ruby_mem" where
  \<comment> \<open>Modelled from the spec: \<open>rxml_write_callback\<close> (ruby_xml_io.c, not among the
      sources) "forwards bytes to the given handle", a byte sink being "anything
      supporting a write(bytes) -> count operation".\<close>
  "rxml_write_callback io buf len m =
     (int len, m\<lparr>written := written m @ [(io, take len buf)]\<rparr>)"

definition rxml_writer_write_callback ::
  "addr \<Rightarrow> string \<Rightarrow> nat \<Rightarrow> ruby_mem \<Rightarrow> (int \<times> ruby_mem) option" where
  \<comment> \<open>\<open>None\<close>: \<open>context\<close> does not point to a writer struct\<close>
  "rxml_writer_write_callback context buf len m =
     (case rwos m context of
        None \<Rightarrow> None
      | Some rwo \<Rightarrow>
          if closed rwo \<noteq> 0 then Some (0, m)
          else Some (rxml_write_callback (output rwo) buf len m))"

fun xmlOutputBufferWrite :: "addr \<Rightarrow> string list \<Rightarrow> ruby_mem \<Rightarrow> ruby_mem option" where
  \<comment> \<open>libxml2's side of the stream sink: each chunk of output it still holds is handed
      to the callback registered in \<open>rxml_writer_io\<close>, with the registered context\<close>
  "xmlOutputBufferWrite context [] m = Some m"
| "xmlOutputBufferWrite context (c # cs) m =
     (case rxml_writer_write_callback context c (length c) m of
        None \<Rightarrow> None
      | Some (n, m') \<Rightarrow> xmlOutputBufferWrite context cs m')"

definition rxml_writer_free ::
  "'n env \<Rightarrow> string list \<Rightarrow> addr \<Rightarrow> ruby_mem \<times> 'n rt \<Rightarrow> (ruby_mem \<times> 'n rt) option" where
  \<comment> \<open>\<open>pending\<close> is the output \<open>xmlFreeTextWriter\<close> finds unflushed and pushes through the
      callback before it releases the writer; \<open>xfree\<close> then removes the struct\<close>
  "rxml_writer_free E pending rwo_ptr ms =
     (case rwos (fst ms) rwo_ptr of
        None \<Rightarrow> None
      | Some rwo \<Rightarrow>
          (let m1 = (fst ms)\<lparr>rwos := (rwos (fst ms))(rwo_ptr \<mapsto> rwo\<lparr>closed := 1\<rparr>)\<rparr>
           in case xmlOutputBufferWrite rwo_ptr pending m1 of
                None \<Rightarrow> None
              | Some m2 \<Rightarrow>
                  Some (m2\<lparr>rwos := (rwos m2)(rwo_ptr := None)\<rparr>,
                        call_void E (XmlFreeTextWriter (writer rwo)) (snd ms))))"

subsection \<open>Constructors\<close>

definition StringValueCStr :: "VALUE \<Rightarrow> exn + string" where
  "StringValueCStr v =
     (case v of
        String b e \<Rightarrow>
          if CHR 0x00 \<in> set b then Inl (ArgError ''string contains null byte'') else Inr b
      | _ \<Rightarrow> Inl (TypeError ''no implicit conversion into String''))"

definition rb_utf8_encoding :: rb_encoding where
  "rb_utf8_encoding = ''UTF-8''"

definition rxml_document_wrap :: "addr \<Rightarrow> VALUE" where
  \<comment> \<open>Modelled from the spec: \<open>rxml_document_wrap\<close> (ruby_xml_document.c, not among the
      sources): "the resulting native document is wrapped as the managed Document".\<close>
  "rxml_document_wrap xdoc = Document xdoc"

definition rxml_writer_io ::
  "'n env \<Rightarrow> addr \<Rightarrow> VALUE \<Rightarrow> 'n rt \<Rightarrow> (exn + rxml_writer_object) \<times> 'n rt" where
  \<comment> \<open>\<open>rwo_ptr\<close> is the address \<open>ALLOC\<close> returned; \<open>xmlFindCharEncodingHandler\<close> is
      rendered by the encoding's name, passed on to \<open>xmlOutputBufferCreateIO\<close>\<close>
  "rxml_writer_io E rwo_ptr io s =
     (let enc = (case rb_enc_get E io of None \<Rightarrow> rb_utf8_encoding | Some e \<Rightarrow> e);
          (out, s1) = call_ptr E (XmlOutputBufferCreateIO rwo_ptr enc) s
      in case out of
           None \<Rightarrow> (Inl (rxml_raise (xmlGetLastError (world s1))), s1)
         | Some ob \<Rightarrow>
             (let (w, s2) = call_ptr E (XmlNewTextWriter out) s1
              in case w of
                   None \<Rightarrow> (Inl (rxml_raise (xmlGetLastError (world s2))), s2)
                 | Some wp \<Rightarrow>
                     (Inr \<lparr>output = io, encoding = enc, buffer = None, writer = wp,
                           output_type = RXMLW_OUTPUT_IO, closed = 0\<rparr>, s2)))"

definition rxml_writer_file ::
  "'n env \<Rightarrow> VALUE \<Rightarrow> 'n rt \<Rightarrow> (exn + rxml_writer_object) \<times> 'n rt" where
  "rxml_writer_file E filename s =
     (case StringValueCStr filename of
        Inl e \<Rightarrow> (Inl e, s)
      | Inr path \<Rightarrow>
          (let (w, s1) = call_ptr E (XmlNewTextWriterFilename path) s
           in case w of
                None \<Rightarrow> (Inl (rxml_raise (xmlGetLastError (world s1))), s1)
              | Some wp \<Rightarrow>
                  (Inr \<lparr>output = Qnil, encoding = rb_utf8_encoding, buffer = None,
                        writer = wp, output_type = RXMLW_OUTPUT_NONE, closed = 0\<rparr>, s1)))"

definition rxml_writer_string :: "'n env \<Rightarrow> 'n rt \<Rightarrow> (exn + rxml_writer_object) \<times> 'n rt" where
  "rxml_writer_string E s =
     (let (buf, s1) = call_ptr E XmlBufferCreate s
      in case buf of
           None \<Rightarrow> (Inl (rxml_raise (xmlGetLastError (world s1))), s1)
         | Some b \<Rightarrow>
             (let (w, s2) = call_ptr E (XmlNewTextWriterMemory buf) s1
              in case w of
                   None \<Rightarrow>
                     (let s3 = call_void E (XmlBufferFree b) s2
                      in (Inl (rxml_raise (xmlGetLastError (world s3))), s3))
                 | Some wp \<Rightarrow>
                     (Inr \<lparr>output = Qnil, encoding = rb_utf8_encoding, buffer = buf,
                           writer = wp, output_type = RXMLW_OUTPUT_STRING, closed = 0\<rparr>, s2)))"

definition rxml_writer_doc :: "'n env \<Rightarrow> 'n rt \<Rightarrow> (exn + rxml_writer_object) \<times> 'n rt" where
  "rxml_writer_doc E s =
     (let (w, s1) = call_ptr E XmlNewTextWriterDoc s
      in case w of
           None \<Rightarrow> (Inl (rxml_raise (xmlGetLastError (world s1))), s1)
         | Some wp \<Rightarrow>
             (case doc_out (world s1) of
                None \<Rightarrow> (Inl NullDeref, s1)
              | Some xdoc \<Rightarrow>
                  (Inr \<lparr>output = rxml_document_wrap xdoc, encoding = rb_utf8_encoding,
                        buffer = None, writer = wp, output_type = RXMLW_OUTPUT_DOC,
                        closed = 0\<rparr>, s1)))"

subsection \<open>flush and result\<close>

definition rb_scan_args :: "VALUE list \<Rightarrow> nat \<Rightarrow> nat \<Rightarrow> exn option" where
  \<comment> \<open>\<open>rb_scan_args(argc, argv, "<required><optional>", ...)\<close> raises unless
      \<open>required \<le> argc \<le> required + optional\<close>\<close>
  "rb_scan_args argv required optional =
     (if required \<le> length argv \<and> length argv \<le> required + optional then None
      else Some (ArgError ''wrong number of arguments''))"

definition rb_external_str_new_with_enc :: "string \<Rightarrow> rb_encoding \<Rightarrow> VALUE" where
  \<comment> \<open>the Ruby String made of the given bytes, tagged with the encoding\<close>
  "rb_external_str_new_with_enc bytes enc = String bytes enc"

definition rxml_writer_flush ::
  "'n env \<Rightarrow> VALUE list \<Rightarrow> rxml_writer_object \<Rightarrow> 'n rt \<Rightarrow> (exn + VALUE) \<times> 'n rt" where
  "rxml_writer_flush E argv rwo s =
     (case rb_scan_args argv 0 1 of
        Some e \<Rightarrow> (Inl e, s)
      | None \<Rightarrow>
          (let empty = scan_arg argv 0;
               (ret, s1) = call_int E (XmlTextWriter Flush (writer rwo)) s
           in if ret = - 1 then (Inl (rxml_raise (xmlGetLastError (world s1))), s1)
              else
                (case buffer rwo of
                   Some b \<Rightarrow>
                     (case xmlBuffers (world s1) b of
                        None \<Rightarrow> (Inl NullDeref, s1)
                      | Some bytes \<Rightarrow>
                          (let content = rb_external_str_new_with_enc bytes (encoding rwo)
                           in (Inr content,
                               if NIL_P empty \<or> RTEST empty
                               then call_void E (XmlBufferEmpty b) s1
                               else s1)))
                 | None \<Rightarrow> (Inr (Fixnum ret), s1))))"

definition rxml_writer_result ::
  "'n env \<Rightarrow> rxml_writer_object \<Rightarrow> 'n rt \<Rightarrow> (exn + VALUE) \<times> 'n rt" where
  "rxml_writer_result E rwo s =
     (let (bytesWritten, s1) = call_int E (XmlTextWriter Flush (writer rwo)) s
      in if bytesWritten = - 1 then (Inl (rxml_raise (xmlGetLastError (world s1))), s1)
         else
           (case output_type rwo of
              RXMLW_OUTPUT_DOC \<Rightarrow> (Inr (output rwo), s1)
            | RXMLW_OUTPUT_STRING \<Rightarrow>
                (case buffer rwo of
                   None \<Rightarrow> (Inl NullDeref, s1)
                 | Some b \<Rightarrow>
                     (case xmlBuffers (world s1) b of
                        None \<Rightarrow> (Inl NullDeref, s1)
                      | Some bytes \<Rightarrow>
                          (Inr (rb_external_str_new_with_enc bytes (encoding rwo)), s1)))
            | RXMLW_OUTPUT_IO \<Rightarrow> (Inr Qnil, s1)
            | RXMLW_OUTPUT_NONE \<Rightarrow> (Inr Qnil, s1)))"

subsection \<open>Marshalling helpers\<close>

definition encodeString :: "'n env \<Rightarrow> rb_encoding \<Rightarrow> VALUE \<Rightarrow> exn + string option" where
  \<comment> \<open>the body of the loop of \<open>encodeStrings\<close>; a text argument is \<open>nil\<close> or a String,
      anything else is refused as \<open>StringValueCStr\<close> refuses it\<close>
  "encodeString E enc string =
     (if NIL_P string then Inr None
      else
        (case string of
           String b e \<Rightarrow>
             map_sum id Some (StringValueCStr (String (rb_str_conv_enc E b e enc) enc))
         | _ \<Rightarrow> Inl (TypeError ''no implicit conversion into String'')))"

fun encodeStrings :: "'n env \<Rightarrow> rb_encoding \<Rightarrow> VALUE list \<Rightarrow> exn + string option list" where
  "encodeStrings E enc [] = Inr []"
| "encodeStrings E enc (v # vs) =
     (case encodeString E enc v of
        Inl e \<Rightarrow> Inl e
      | Inr x \<Rightarrow>
          (case encodeStrings E enc vs of
             Inl e \<Rightarrow> Inl e
           | Inr xs \<Rightarrow> Inr (x # xs)))"

definition bool_result :: "int \<times> 'n rt \<Rightarrow> (exn + VALUE) \<times> 'n rt" where
  \<comment> \<open>\<open>return (result == -1 ? Qfalse : Qtrue);\<close>\<close>
  "bool_result rs = (Inr (if fst rs = - 1 then Qfalse else Qtrue), snd rs)"

definition invoke_void_arg_function ::
  "'n env \<Rightarrow> writer_fn \<Rightarrow> rxml_writer_object \<Rightarrow> 'n rt \<Rightarrow> (exn + VALUE) \<times> 'n rt" where
  "invoke_void_arg_function E fn rwo s =
     bool_result (call_int E (XmlTextWriter fn (writer rwo)) s)"

definition invoke_strings_function ::
  "'n env \<Rightarrow> (string option list \<Rightarrow> writer_fn) \<Rightarrow> VALUE list \<Rightarrow> rxml_writer_object \<Rightarrow> 'n rt
     \<Rightarrow> (exn + VALUE) \<times> 'n rt" where
  \<comment> \<open>the block repeated in every method with text arguments: \<open>rubyStrings\<close> is encoded
      into \<open>xmlStrings\<close>, the native function is called on them, and its status mapped\<close>
  "invoke_strings_function E fn rubyStrings rwo s =
     (case encodeStrings E (encoding rwo) rubyStrings of
        Inl e \<Rightarrow> (Inl e, s)
      | Inr xmlStrings \<Rightarrow>
          bool_result (call_int E (XmlTextWriter (fn xmlStrings) (writer rwo)) s))"

definition invoke_single_arg_function ::
  "'n env \<Rightarrow> (string option \<Rightarrow> writer_fn) \<Rightarrow> VALUE \<Rightarrow> rxml_writer_object \<Rightarrow> 'n rt
     \<Rightarrow> (exn + VALUE) \<times> 'n rt" where
  "invoke_single_arg_function E fn v rwo s =
     invoke_strings_function E (\<lambda>xmlStrings. fn (xmlStrings ! 0)) [v] rwo s"

subsection \<open>The methods that return a boolean\<close>

definition rxml_writer_set_indent ::
  "'n env \<Rightarrow> VALUE \<Rightarrow> rxml_writer_object \<Rightarrow> 'n rt \<Rightarrow> (exn + VALUE) \<times> 'n rt" where
  "rxml_writer_set_indent E indentation rwo s =
     bool_result (call_int E (XmlTextWriter (SetIndent (RTEST indentation)) (writer rwo)) s)"

definition rxml_writer_set_indent_string ::
  "'n env \<Rightarrow> VALUE \<Rightarrow> rxml_writer_object \<Rightarrow> 'n rt \<Rightarrow> (exn + VALUE) \<times> 'n rt" where
  "rxml_writer_set_indent_string E indentation =
     invoke_single_arg_function E SetIndentString indentation"

definition rxml_writer_write_comment ::
  "'n env \<Rightarrow> VALUE \<Rightarrow> rxml_writer_object \<Rightarrow> 'n rt \<Rightarrow> (exn + VALUE) \<times> 'n rt" where
  "rxml_writer_write_comment E content =
     invoke_single_arg_function E WriteComment content"

definition rxml_writer_write_cdata ::
  "'n env \<Rightarrow> VALUE \<Rightarrow> rxml_writer_object \<Rightarrow> 'n rt \<Rightarrow> (exn + VALUE) \<times> 'n rt" where
  "rxml_writer_write_cdata E content =
     invoke_single_arg_function E WriteCDATA content"

definition rxml_writer_start_element ::
  "'n env \<Rightarrow> VALUE \<Rightarrow> rxml_writer_object \<Rightarrow> 'n rt \<Rightarrow> (exn + VALUE) \<times> 'n rt" where
  "rxml_writer_start_element E nm =
     invoke_single_arg_function E StartElement nm"

definition rxml_writer_start_element_ns ::
  "'n env \<Rightarrow> VALUE list \<Rightarrow> rxml_writer_object \<Rightarrow> 'n rt \<Rightarrow> (exn + VALUE) \<times> 'n rt" where
  "rxml_writer_start_element_ns E argv rwo s =
     (case rb_scan_args argv 2 1 of
        Some e \<Rightarrow> (Inl e, s)
      | None \<Rightarrow>
          invoke_strings_function E
            (\<lambda>x. StartElementNS (x ! 0) (x ! 1) (x ! 2))
            [scan_arg argv 0, scan_arg argv 1, scan_arg argv 2] rwo s)"

definition rxml_writer_end_element ::
  "'n env \<Rightarrow> rxml_writer_object \<Rightarrow> 'n rt \<Rightarrow> (exn + VALUE) \<times> 'n rt" where
  "rxml_writer_end_element E = invoke_void_arg_function E EndElement"

definition rxml_writer_write_element ::
  "'n env \<Rightarrow> VALUE list \<Rightarrow> rxml_writer_object \<Rightarrow> 'n rt \<Rightarrow> (exn + VALUE) \<times> 'n rt" where
  "rxml_writer_write_element E argv rwo s =
     (case rb_scan_args argv 1 1 of
        Some e \<Rightarrow> (Inl e, s)
      | None \<Rightarrow>
          (let nm = scan_arg argv 0; content = scan_arg argv 1
           in if Qnil = content
              then
                (case rxml_writer_start_element E nm rwo s of
                   (Inl e, s1) \<Rightarrow> (Inl e, s1)
                 | (Inr started, s1) \<Rightarrow>
                     if Qfalse = started then (Inr Qfalse, s1)
                     else rxml_writer_end_element E rwo s1)
              else invoke_strings_function E (\<lambda>x. WriteElement (x ! 0) (x ! 1))
                     [nm, content] rwo s))"

definition rxml_writer_write_element_ns ::
  "'n env \<Rightarrow> VALUE list \<Rightarrow> rxml_writer_object \<Rightarrow> 'n rt \<Rightarrow> (exn + VALUE) \<times> 'n rt" where
  "rxml_writer_write_element_ns E argv rwo s =
     (case rb_scan_args argv 2 2 of
        Some e \<Rightarrow> (Inl e, s)
      | None \<Rightarrow>
          (let prefix = scan_arg argv 0; nm = scan_arg argv 1;
               namespaceURI = scan_arg argv 2; content = scan_arg argv 3
           in if Qnil = content
              then
                (case rxml_writer_start_element_ns E [prefix, nm, namespaceURI] rwo s of
                   (Inl e, s1) \<Rightarrow> (Inl e, s1)
                 | (Inr started, s1) \<Rightarrow>
                     if Qfalse = started then (Inr Qfalse, s1)
                     else rxml_writer_end_element E rwo s1)
              else invoke_strings_function E
                     (\<lambda>x. WriteElementNS (x ! 0) (x ! 1) (x ! 2) (x ! 3))
                     [prefix, nm, namespaceURI, content] rwo s))"

definition rxml_writer_write_attribute ::
  "'n env \<Rightarrow> VALUE \<Rightarrow> VALUE \<Rightarrow> rxml_writer_object \<Rightarrow> 'n rt \<Rightarrow> (exn + VALUE) \<times> 'n rt" where
  "rxml_writer_write_attribute E nm content =
     invoke_strings_function E (\<lambda>x. WriteAttribute (x ! 0) (x ! 1)) [nm, content]"

definition rxml_writer_write_attribute_ns ::
  "'n env \<Rightarrow> VALUE list \<Rightarrow> rxml_writer_object \<Rightarrow> 'n rt \<Rightarrow> (exn + VALUE) \<times> 'n rt" where
  "rxml_writer_write_attribute_ns E argv rwo s =
     (case rb_scan_args argv 2 2 of
        Some e \<Rightarrow> (Inl e, s)
      | None \<Rightarrow>
          invoke_strings_function E
            (\<lambda>x. WriteAttributeNS (x ! 0) (x ! 1) (x ! 2) (x ! 3))
            [scan_arg argv 0, scan_arg argv 1, scan_arg argv 2, scan_arg argv 3] rwo s)"

definition rxml_writer_write_pi ::
  "'n env \<Rightarrow> VALUE \<Rightarrow> VALUE \<Rightarrow> rxml_writer_object \<Rightarrow> 'n rt \<Rightarrow> (exn + VALUE) \<times> 'n rt" where
  "rxml_writer_write_pi E target content =
     invoke_strings_function E (\<lambda>x. WritePI (x ! 0) (x ! 1)) [target, content]"

definition rxml_writer_write_string ::
  "'n env \<Rightarrow> VALUE \<Rightarrow> rxml_writer_object \<Rightarrow> 'n rt \<Rightarrow> (exn + VALUE) \<times> 'n rt" where
  "rxml_writer_write_string E content =
     invoke_single_arg_function E WriteString content"

definition rxml_writer_write_raw ::
  "'n env \<Rightarrow> VALUE \<Rightarrow> rxml_writer_object \<Rightarrow> 'n rt \<Rightarrow> (exn + VALUE) \<times> 'n rt" where
  "rxml_writer_write_raw E content =
     invoke_single_arg_function E WriteRaw content"

definition rxml_writer_start_attribute ::
  "'n env \<Rightarrow> VALUE \<Rightarrow> rxml_writer_object \<Rightarrow> 'n rt \<Rightarrow> (exn + VALUE) \<times> 'n rt" where
  "rxml_writer_start_attribute E nm =
     invoke_single_arg_function E StartAttribute nm"

definition rxml_writer_start_attribute_ns ::
  "'n env \<Rightarrow> VALUE list \<Rightarrow> rxml_writer_object \<Rightarrow> 'n rt \<Rightarrow> (exn + VALUE) \<times> 'n rt" where
  "rxml_writer_start_attribute_ns E argv rwo s =
     (case rb_scan_args argv 2 1 of
        Some e \<Rightarrow> (Inl e, s)
      | None \<Rightarrow>
          invoke_strings_function E
            (\<lambda>x. StartAttributeNS (x ! 0) (x ! 1) (x ! 2))
            [scan_arg argv 0, scan_arg argv 1, scan_arg argv 2] rwo s)"

definition rxml_writer_end_attribute ::
  "'n env \<Rightarrow> rxml_writer_object \<Rightarrow> 'n rt \<Rightarrow> (exn + VALUE) \<times> 'n rt" where
  "rxml_writer_end_attribute E = invoke_void_arg_function E EndAttribute"

definition rxml_writer_start_comment ::
  "'n env \<Rightarrow> rxml_writer_object \<Rightarrow> 'n rt \<Rightarrow> (exn + VALUE) \<times> 'n rt" where
  "rxml_writer_start_comment E = invoke_void_arg_function E StartComment"

definition rxml_writer_end_comment ::
  "'n env \<Rightarrow> rxml_writer_object \<Rightarrow> 'n rt \<Rightarrow> (exn + VALUE) \<times> 'n rt" where
  "rxml_writer_end_comment E = invoke_void_arg_function E EndComment"

definition rxml_writer_full_end_element ::
  "'n env \<Rightarrow> rxml_writer_object \<Rightarrow> 'n rt \<Rightarrow> (exn + VALUE) \<times> 'n rt" where
  "rxml_writer_full_end_element E = invoke_void_arg_function E FullEndElement"

definition rxml_writer_start_cdata ::
  "'n env \<Rightarrow> rxml_writer_object \<Rightarrow> 'n rt \<Rightarrow> (exn + VALUE) \<times> 'n rt" where
  "rxml_writer_start_cdata E = invoke_void_arg_function E StartCDATA"

definition rxml_writer_end_cdata ::
  "'n env \<Rightarrow> rxml_writer_object \<Rightarrow> 'n rt \<Rightarrow> (exn + VALUE) \<times> 'n rt" where
  "rxml_writer_end_cdata E = invoke_void_arg_function E EndCDATA"

definition rxml_writer_end_document ::
  "'n env \<Rightarrow> rxml_writer_object \<Rightarrow> 'n rt \<Rightarrow> (exn + VALUE) \<times> 'n rt" where
  "rxml_writer_end_document E = invoke_void_arg_function E EndDocument"

definition rxml_writer_start_pi ::
  "'n env \<Rightarrow> VALUE \<Rightarrow> rxml_writer_object \<Rightarrow> 'n rt \<Rightarrow> (exn + VALUE) \<times> 'n rt" where
  "rxml_writer_start_pi E target =
     invoke_single_arg_function E StartPI target"

definition rxml_writer_end_pi ::
  "'n env \<Rightarrow> rxml_writer_object \<Rightarrow> 'n rt \<Rightarrow> (exn + VALUE) \<times> 'n rt" where
  "rxml_writer_end_pi E = invoke_void_arg_function E EndPI"

definition rxml_writer_start_dtd ::
  "'n env \<Rightarrow> VALUE list \<Rightarrow> rxml_writer_object \<Rightarrow> 'n rt \<Rightarrow> (exn + VALUE) \<times> 'n rt" where
  "rxml_writer_start_dtd E argv rwo s =
     (case rb_scan_args argv 1 2 of
        Some e \<Rightarrow> (Inl e, s)
      | None \<Rightarrow>
          invoke_strings_function E
            (\<lambda>x. StartDTD (x ! 0) (x ! 1) (x ! 2))
            [scan_arg argv 0, scan_arg argv 1, scan_arg argv 2] rwo s)"

definition rxml_writer_start_dtd_element ::
  "'n env \<Rightarrow> VALUE \<Rightarrow> rxml_writer_object \<Rightarrow> 'n rt \<Rightarrow> (exn + VALUE) \<times> 'n rt" where
  "rxml_writer_start_dtd_element E nm =
     invoke_single_arg_function E StartDTDElement nm"

definition rxml_writer_start_dtd_entity ::
  "'n env \<Rightarrow> VALUE list \<Rightarrow> rxml_writer_object \<Rightarrow> 'n rt \<Rightarrow> (exn + VALUE) \<times> 'n rt" where
  "rxml_writer_start_dtd_entity E argv rwo s =
     (case rb_scan_args argv 1 1 of
        Some e \<Rightarrow> (Inl e, s)
      | None \<Rightarrow>
          (let nm = scan_arg argv 0; pe = scan_arg argv 1
           in invoke_strings_function E (\<lambda>x. StartDTDEntity (RTEST pe) (x ! 0)) [nm] rwo s))"

definition rxml_writer_start_dtd_attlist ::
  "'n env \<Rightarrow> VALUE \<Rightarrow> rxml_writer_object \<Rightarrow> 'n rt \<Rightarrow> (exn + VALUE) \<times> 'n rt" where
  "rxml_writer_start_dtd_attlist E nm =
     invoke_single_arg_function E StartDTDAttlist nm"

definition rxml_writer_end_dtd ::
  "'n env \<Rightarrow> rxml_writer_object \<Rightarrow> 'n rt \<Rightarrow> (exn + VALUE) \<times> 'n rt" where
  "rxml_writer_end_dtd E = invoke_void_arg_function E EndDTD"

definition rxml_writer_end_dtd_entity ::
  "'n env \<Rightarrow> rxml_writer_object \<Rightarrow> 'n rt \<Rightarrow> (exn + VALUE) \<times> 'n rt" where
  "rxml_writer_end_dtd_entity E = invoke_void_arg_function E EndDTDEntity"

definition rxml_writer_end_dtd_attlist ::
  "'n env \<Rightarrow> rxml_writer_object \<Rightarrow> 'n rt \<Rightarrow> (exn + VALUE) \<times> 'n rt" where
  "rxml_writer_end_dtd_attlist E = invoke_void_arg_function E EndDTDAttlist"

definition rxml_writer_end_dtd_element ::
  "'n env \<Rightarrow> rxml_writer_object \<Rightarrow> 'n rt \<Rightarrow> (exn + VALUE) \<times> 'n rt" where
  "rxml_writer_end_dtd_element E = invoke_void_arg_function E EndDTDElement"

definition rxml_writer_write_dtd ::
  "'n env \<Rightarrow> VALUE list \<Rightarrow> rxml_writer_object \<Rightarrow> 'n rt \<Rightarrow> (exn + VALUE) \<times> 'n rt" where
  "rxml_writer_write_dtd E argv rwo s =
     (case rb_scan_args argv 1 3 of
        Some e \<Rightarrow> (Inl e, s)
      | None \<Rightarrow>
          invoke_strings_function E
            (\<lambda>x. WriteDTD (x ! 0) (x ! 1) (x ! 2) (x ! 3))
            [scan_arg argv 0, scan_arg argv 1, scan_arg argv 2, scan_arg argv 3] rwo s)"

definition rxml_writer_write_dtd_attlist ::
  "'n env \<Rightarrow> VALUE \<Rightarrow> VALUE \<Rightarrow> rxml_writer_object \<Rightarrow> 'n rt \<Rightarrow> (exn + VALUE) \<times> 'n rt" where
  "rxml_writer_write_dtd_attlist E nm content =
     invoke_strings_function E (\<lambda>x. WriteDTDAttlist (x ! 0) (x ! 1)) [nm, content]"

definition rxml_writer_write_dtd_element ::
  "'n env \<Rightarrow> VALUE \<Rightarrow> VALUE \<Rightarrow> rxml_writer_object \<Rightarrow> 'n rt \<Rightarrow> (exn + VALUE) \<times> 'n rt" where
  "rxml_writer_write_dtd_element E nm content =
     invoke_strings_function E (\<lambda>x. WriteDTDElement (x ! 0) (x ! 1)) [nm, content]"

definition rxml_writer_write_dtd_entity ::
  "'n env \<Rightarrow> VALUE \<Rightarrow> VALUE \<Rightarrow> VALUE \<Rightarrow> VALUE \<Rightarrow> VALUE \<Rightarrow> VALUE \<Rightarrow> rxml_writer_object \<Rightarrow> 'n rt \<Rightarrow> (exn + VALUE) \<times> 'n rt" where
  "rxml_writer_write_dtd_entity E nm pubid sysid ndataid content pe =
     invoke_strings_function E
       (\<lambda>x. WriteDTDEntity (RTEST pe) (x ! 0) (x ! 1) (x ! 2) (x ! 3) (x ! 4))
       [nm, pubid, sysid, ndataid, content]"

definition rxml_writer_write_dtd_external_entity ::
  "'n env \<Rightarrow> VALUE \<Rightarrow> VALUE \<Rightarrow> VALUE \<Rightarrow> VALUE \<Rightarrow> VALUE \<Rightarrow> rxml_writer_object \<Rightarrow> 'n rt \<Rightarrow> (exn + VALUE) \<times> 'n rt" where
  "rxml_writer_write_dtd_external_entity E nm pubid sysid ndataid pe =
     invoke_strings_function E
       (\<lambda>x. WriteDTDExternalEntity (RTEST pe) (x ! 0) (x ! 1) (x ! 2) (x ! 3))
       [nm, pubid, sysid, ndataid]"

definition rxml_writer_write_dtd_external_entity_contents ::
  "'n env \<Rightarrow> VALUE \<Rightarrow> VALUE \<Rightarrow> VALUE \<Rightarrow> rxml_writer_object \<Rightarrow> 'n rt \<Rightarrow> (exn + VALUE) \<times> 'n rt" where
  "rxml_writer_write_dtd_external_entity_contents E pubid sysid ndataid =
     invoke_strings_function E (\<lambda>x. WriteDTDExternalEntityContents (x ! 0) (x ! 1) (x ! 2)) [pubid, sysid, ndataid]"

definition rxml_writer_write_dtd_internal_entity ::
  "'n env \<Rightarrow> VALUE \<Rightarrow> VALUE \<Rightarrow> VALUE \<Rightarrow> rxml_writer_object \<Rightarrow> 'n rt \<Rightarrow> (exn + VALUE) \<times> 'n rt" where
  "rxml_writer_write_dtd_internal_entity E nm content pe =
     invoke_strings_function E (\<lambda>x. WriteDTDInternalEntity (RTEST pe) (x ! 0) (x ! 1))
       [nm, content]"

definition rxml_writer_write_dtd_notation ::
  "'n env \<Rightarrow> VALUE \<Rightarrow> VALUE \<Rightarrow> VALUE \<Rightarrow> rxml_writer_object \<Rightarrow> 'n rt \<Rightarrow> (exn + VALUE) \<times> 'n rt" where
  "rxml_writer_write_dtd_notation E nm pubid sysid =
     invoke_strings_function E (\<lambda>x. WriteDTDNotation (x ! 0) (x ! 1) (x ! 2)) [nm, pubid, sysid]"

definition rxml_writer_set_quote_char ::
  "'n env \<Rightarrow> VALUE \<Rightarrow> rxml_writer_object \<Rightarrow> 'n rt \<Rightarrow> (exn + VALUE) \<times> 'n rt" where
  "rxml_writer_set_quote_char E quotechar rwo s =
     (case StringValueCStr quotechar of
        Inl e \<Rightarrow> (Inl e, s)
      | Inr xquotechar \<Rightarrow>
          bool_result
            (call_int E
               (XmlTextWriter
                  (SetQuoteChar (case xquotechar of [] \<Rightarrow> CHR 0x00 | c # cs \<Rightarrow> c))
                  (writer rwo)) s))"

definition NUM2INT :: "VALUE \<Rightarrow> exn + int" where
  \<comment> \<open>an Integer that fits a C \<open>int\<close>; other values are refused\<close>
  "NUM2INT v =
     (case v of
        Fixnum i \<Rightarrow> if - (2 ^ 31) \<le> i \<and> i < 2 ^ 31 then Inr i else Inl RangeError
      | _ \<Rightarrow> Inl (TypeError ''no implicit conversion into Integer''))"

definition rb_hash_aref :: "(VALUE \<times> VALUE) list \<Rightarrow> VALUE \<Rightarrow> VALUE" where
  "rb_hash_aref h k = (case map_of h k of None \<Rightarrow> Qnil | Some v \<Rightarrow> v)"

definition start_document_options ::
  "'n env \<Rightarrow> VALUE \<Rightarrow> exn + (string option \<times> string option)" where
  \<comment> \<open>the block \<open>if (!NIL_P(options)) {...}\<close> of \<open>rxml_writer_start_document\<close>, giving
      \<open>(xencoding, xstandalone)\<close>\<close>
  "start_document_options E options =
     (if \<not> NIL_P options
      then
        (case options of
           Hash h \<Rightarrow>
             (let enc = rb_hash_aref h (Symbol ''encoding'')
              in case (if NIL_P enc then Inr None
                       else map_sum id (xmlGetCharEncodingName E) (NUM2INT enc)) of
                   Inl e \<Rightarrow> Inl e
                 | Inr xencoding \<Rightarrow>
                     (let standalone = rb_hash_aref h (Symbol ''standalone'')
                      in Inr (xencoding,
                              if NIL_P standalone then None
                              else Some (if RTEST standalone then ''yes'' else ''no''))))
         | _ \<Rightarrow> Inl (TypeError ''wrong argument type (expected Hash)''))
      else Inr (None, None))"

definition rxml_writer_start_document ::
  "'n env \<Rightarrow> VALUE list \<Rightarrow> rxml_writer_object \<Rightarrow> 'n rt
     \<Rightarrow> (exn + VALUE) \<times> rxml_writer_object \<times> 'n rt" where
  "rxml_writer_start_document E argv rwo s =
     (case rb_scan_args argv 0 1 of
        Some e \<Rightarrow> (Inl e, rwo, s)
      | None \<Rightarrow>
          (case start_document_options E (scan_arg argv 0) of
             Inl e \<Rightarrow> (Inl e, rwo, s)
           | Inr (xencoding, xstandalone) \<Rightarrow>
               (let rwo' = rwo\<lparr>encoding := rxml_figure_encoding E xencoding\<rparr>;
                    (r, s') =
                       bool_result
                         (call_int E
                            (XmlTextWriter (StartDocument None xencoding xstandalone)
                               (writer rwo')) s)
                in (r, rwo', s'))))"

subsection \<open>The method table\<close>

datatype writer_cfunc =
    Rxml_writer_set_indent
  | Rxml_writer_set_indent_string
  | Rxml_writer_set_quote_char
  | Rxml_writer_flush
  | Rxml_writer_start_dtd
  | Rxml_writer_start_dtd_entity
  | Rxml_writer_start_dtd_attlist
  | Rxml_writer_start_dtd_element
  | Rxml_writer_write_dtd
  | Rxml_writer_write_dtd_attlist
  | Rxml_writer_write_dtd_element
  | Rxml_writer_write_dtd_entity
  | Rxml_writer_write_dtd_external_entity
  | Rxml_writer_write_dtd_external_entity_contents
  | Rxml_writer_write_dtd_internal_entity
  | Rxml_writer_write_dtd_notation
  | Rxml_writer_end_dtd
  | Rxml_writer_end_dtd_entity
  | Rxml_writer_end_dtd_attlist
  | Rxml_writer_end_dtd_element
  | Rxml_writer_write_raw
  | Rxml_writer_write_string
  | Rxml_writer_start_cdata
  | Rxml_writer_end_cdata
  | Rxml_writer_start_attribute
  | Rxml_writer_start_attribute_ns
  | Rxml_writer_end_attribute
  | Rxml_writer_start_element
  | Rxml_writer_start_element_ns
  | Rxml_writer_end_element
  | Rxml_writer_full_end_element
  | Rxml_writer_start_document
  | Rxml_writer_end_document
  | Rxml_writer_start_comment
  | Rxml_writer_end_comment
  | Rxml_writer_start_pi
  | Rxml_writer_end_pi
  | Rxml_writer_write_attribute
  | Rxml_writer_write_attribute_ns
  | Rxml_writer_write_comment
  | Rxml_writer_write_cdata
  | Rxml_writer_write_element
  | Rxml_writer_write_element_ns
  | Rxml_writer_write_pi
  | Rxml_writer_result

definition rxml_init_writer :: "(string \<times> writer_cfunc \<times> int) list" where
  "rxml_init_writer =
     (let t = [];
          t = rb_define_method t ''set_indent'' Rxml_writer_set_indent 1;
          t = rb_define_method t ''set_indent_string'' Rxml_writer_set_indent_string 1;
          t = rb_define_method t ''set_quote_char'' Rxml_writer_set_quote_char 1;
          t = rb_define_method t ''flush'' Rxml_writer_flush (- 1);
          t = rb_define_method t ''start_dtd'' Rxml_writer_start_dtd (- 1);
          t = rb_define_method t ''start_dtd_entity'' Rxml_writer_start_dtd_entity (- 1);
          t = rb_define_method t ''start_dtd_attlist'' Rxml_writer_start_dtd_attlist 1;
          t = rb_define_method t ''start_dtd_element'' Rxml_writer_start_dtd_element 1;
          t = rb_define_method t ''write_dtd'' Rxml_writer_write_dtd (- 1);
          t = rb_define_method t ''write_dtd_attlist'' Rxml_writer_write_dtd_attlist 2;
          t = rb_define_method t ''write_dtd_element'' Rxml_writer_write_dtd_element 2;
          t = rb_define_method t ''write_dtd_entity'' Rxml_writer_write_dtd_entity 6;
          t = rb_define_method t ''write_dtd_external_entity''
                Rxml_writer_write_dtd_external_entity 5;
          t = rb_define_method t ''write_dtd_external_entity_contents''
                Rxml_writer_write_dtd_external_entity_contents 3;
          t = rb_define_method t ''write_dtd_internal_entity''
                Rxml_writer_write_dtd_internal_entity 3;
          t = rb_define_method t ''write_dtd_notation'' Rxml_writer_write_dtd_notation 3;
          t = rb_define_method t ''end_dtd'' Rxml_writer_end_dtd 0;
          t = rb_define_method t ''end_dtd_entity'' Rxml_writer_end_dtd_entity 0;
          t = rb_define_method t ''end_dtd_attlist'' Rxml_writer_end_dtd_attlist 0;
          t = rb_define_method t ''end_dtd_element'' Rxml_writer_end_dtd_element 0;
          t = rb_define_method t ''write_raw'' Rxml_writer_write_raw 1;
          t = rb_define_method t ''write_string'' Rxml_writer_write_string 1;
          t = rb_define_method t ''start_cdata'' Rxml_writer_start_cdata 0;
          t = rb_define_method t ''end_cdata'' Rxml_writer_end_cdata 0;
          t = rb_define_method t ''start_attribute'' Rxml_writer_start_attribute 1;
          t = rb_define_method t ''start_attribute_ns'' Rxml_writer_start_attribute_ns (- 1);
          t = rb_define_method t ''end_attribute'' Rxml_writer_end_attribute 0;
          t = rb_define_method t ''start_element'' Rxml_writer_start_element 1;
          t = rb_define_method t ''start_element_ns'' Rxml_writer_start_element_ns (- 1);
          t = rb_define_method t ''end_element'' Rxml_writer_end_element 0;
          t = rb_define_method t ''full_end_element'' Rxml_writer_full_end_element 0;
          t = rb_define_method t ''start_document'' Rxml_writer_start_document (- 1);
          t = rb_define_method t ''end_document'' Rxml_writer_end_document 0;
          t = rb_define_method t ''start_comment'' Rxml_writer_start_comment 0;
          t = rb_define_method t ''end_comment'' Rxml_writer_end_comment 0;
          t = rb_define_method t ''start_pi'' Rxml_writer_start_pi 1;
          t = rb_define_method t ''end_pi'' Rxml_writer_end_pi 0;
          t = rb_define_method t ''write_attribute'' Rxml_writer_write_attribute 2;
          t = rb_define_method t ''write_attribute_ns'' Rxml_writer_write_attribute_ns (- 1);
          t = rb_define_method t ''write_comment'' Rxml_writer_write_comment 1;
          t = rb_define_method t ''write_cdata'' Rxml_writer_write_cdata 1;
          t = rb_define_method t ''write_element'' Rxml_writer_write_element (- 1);
          t = rb_define_method t ''write_element_ns'' Rxml_writer_write_element_ns (- 1);
          t = rb_define_method t ''write_pi'' Rxml_writer_write_pi 2;
          t = rb_define_method t ''result'' Rxml_writer_result 0
      in t)"

definition keep ::
  "rxml_writer_object \<Rightarrow> (exn + VALUE) \<times> 'n rt \<Rightarrow> (exn + VALUE) \<times> rxml_writer_object \<times> 'n rt"
  where
  \<comment> \<open>a method that leaves the writer struct as it is\<close>
  "keep rwo rs = (fst rs, rwo, snd rs)"

definition writer_apply ::
  "'n env \<Rightarrow> writer_cfunc \<Rightarrow> VALUE list \<Rightarrow> rxml_writer_object \<Rightarrow> 'n rt
     \<Rightarrow> (exn + VALUE) \<times> rxml_writer_object \<times> 'n rt" where
  "writer_apply E fn a rwo s =
     (case fn of
        Rxml_writer_set_indent \<Rightarrow> keep rwo (rxml_writer_set_indent E (a ! 0) rwo s)
      | Rxml_writer_set_indent_string \<Rightarrow>
          keep rwo (rxml_writer_set_indent_string E (a ! 0) rwo s)
      | Rxml_writer_set_quote_char \<Rightarrow> keep rwo (rxml_writer_set_quote_char E (a ! 0) rwo s)
      | Rxml_writer_flush \<Rightarrow> keep rwo (rxml_writer_flush E a rwo s)
      | Rxml_writer_start_dtd \<Rightarrow> keep rwo (rxml_writer_start_dtd E a rwo s)
      | Rxml_writer_start_dtd_entity \<Rightarrow> keep rwo (rxml_writer_start_dtd_entity E a rwo s)
      | Rxml_writer_start_dtd_attlist \<Rightarrow>
          keep rwo (rxml_writer_start_dtd_attlist E (a ! 0) rwo s)
      | Rxml_writer_start_dtd_element \<Rightarrow>
          keep rwo (rxml_writer_start_dtd_element E (a ! 0) rwo s)
      | Rxml_writer_write_dtd \<Rightarrow> keep rwo (rxml_writer_write_dtd E a rwo s)
      | Rxml_writer_write_dtd_attlist \<Rightarrow>
          keep rwo (rxml_writer_write_dtd_attlist E (a ! 0) (a ! 1) rwo s)
      | Rxml_writer_write_dtd_element \<Rightarrow>
          keep rwo (rxml_writer_write_dtd_element E (a ! 0) (a ! 1) rwo s)
      | Rxml_writer_write_dtd_entity \<Rightarrow>
          keep rwo
            (rxml_writer_write_dtd_entity E (a ! 0) (a ! 1) (a ! 2) (a ! 3) (a ! 4) (a ! 5)
               rwo s)
      | Rxml_writer_write_dtd_external_entity \<Rightarrow>
          keep rwo
            (rxml_writer_write_dtd_external_entity E (a ! 0) (a ! 1) (a ! 2) (a ! 3) (a ! 4)
               rwo s)
      | Rxml_writer_write_dtd_external_entity_contents \<Rightarrow>
          keep rwo
            (rxml_writer_write_dtd_external_entity_contents E (a ! 0) (a ! 1) (a ! 2) rwo s)
      | Rxml_writer_write_dtd_internal_entity \<Rightarrow>
          keep rwo (rxml_writer_write_dtd_internal_entity E (a ! 0) (a ! 1) (a ! 2) rwo s)
      | Rxml_writer_write_dtd_notation \<Rightarrow>
          keep rwo (rxml_writer_write_dtd_notation E (a ! 0) (a ! 1) (a ! 2) rwo s)
      | Rxml_writer_end_dtd \<Rightarrow> keep rwo (rxml_writer_end_dtd E rwo s)
      | Rxml_writer_end_dtd_entity \<Rightarrow> keep rwo (rxml_writer_end_dtd_entity E rwo s)
      | Rxml_writer_end_dtd_attlist \<Rightarrow> keep rwo (rxml_writer_end_dtd_attlist E rwo s)
      | Rxml_writer_end_dtd_element \<Rightarrow> keep rwo (rxml_writer_end_dtd_element E rwo s)
      | Rxml_writer_write_raw \<Rightarrow> keep rwo (rxml_writer_write_raw E (a ! 0) rwo s)
      | Rxml_writer_write_string \<Rightarrow> keep rwo (rxml_writer_write_string E (a ! 0) rwo s)
      | Rxml_writer_start_cdata \<Rightarrow> keep rwo (rxml_writer_start_cdata E rwo s)
      | Rxml_writer_end_cdata \<Rightarrow> keep rwo (rxml_writer_end_cdata E rwo s)
      | Rxml_writer_start_attribute \<Rightarrow> keep rwo (rxml_writer_start_attribute E (a ! 0) rwo s)
      | Rxml_writer_start_attribute_ns \<Rightarrow> keep rwo (rxml_writer_start_attribute_ns E a rwo s)
      | Rxml_writer_end_attribute \<Rightarrow> keep rwo (rxml_writer_end_attribute E rwo s)
      | Rxml_writer_start_element \<Rightarrow> keep rwo (rxml_writer_start_element E (a ! 0) rwo s)
      | Rxml_writer_start_element_ns \<Rightarrow> keep rwo (rxml_writer_start_element_ns E a rwo s)
      | Rxml_writer_end_element \<Rightarrow> keep rwo (rxml_writer_end_element E rwo s)
      | Rxml_writer_full_end_element \<Rightarrow> keep rwo (rxml_writer_full_end_element E rwo s)
      | Rxml_writer_start_document \<Rightarrow> rxml_writer_start_document E a rwo s
      | Rxml_writer_end_document \<Rightarrow> keep rwo (rxml_writer_end_document E rwo s)
      | Rxml_writer_start_comment \<Rightarrow> keep rwo (rxml_writer_start_comment E rwo s)
      | Rxml_writer_end_comment \<Rightarrow> keep rwo (rxml_writer_end_comment E rwo s)
      | Rxml_writer_start_pi \<Rightarrow> keep rwo (rxml_writer_start_pi E (a ! 0) rwo s)
      | Rxml_writer_end_pi \<Rightarrow> keep rwo (rxml_writer_end_pi E rwo s)
      | Rxml_writer_write_attribute \<Rightarrow>
          keep rwo (rxml_writer_write_attribute E (a ! 0) (a ! 1) rwo s)
      | Rxml_writer_write_attribute_ns \<Rightarrow> keep rwo (rxml_writer_write_attribute_ns E a rwo s)
      | Rxml_writer_write_comment \<Rightarrow> keep rwo (rxml_writer_write_comment E (a ! 0) rwo s)
      | Rxml_writer_write_cdata \<Rightarrow> keep rwo (rxml_writer_write_cdata E (a ! 0) rwo s)
      | Rxml_writer_write_element \<Rightarrow> keep rwo (rxml_writer_write_element E a rwo s)
      | Rxml_writer_write_element_ns \<Rightarrow> keep rwo (rxml_writer_write_element_ns E a rwo s)
      | Rxml_writer_write_pi \<Rightarrow> keep rwo (rxml_writer_write_pi E (a ! 0) (a ! 1) rwo s)
      | Rxml_writer_result \<Rightarrow> keep rwo (rxml_writer_result E rwo s))"

definition writer_send ::
  "'n env \<Rightarrow> string \<Rightarrow> VALUE list \<Rightarrow> rxml_writer_object \<Rightarrow> 'n rt
     \<Rightarrow> (exn + VALUE) \<times> rxml_writer_object \<times> 'n rt" where
  \<comment> \<open>calling the method \<open>m\<close> of a \<open>cXMLWriter\<close> object\<close>
  "writer_send E m argv rwo s =
     (case map_of rxml_init_writer m of
        None \<Rightarrow> (Inl (NoMethodError m), rwo, s)
      | Some (fn, arity) \<Rightarrow>
          if 0 \<le> arity \<and> int (length argv) \<noteq> arity
          then (Inl (ArgError ''wrong number of arguments''), rwo, s)
          else writer_apply E fn argv rwo s)"

section \<open>Notions used in the statements\<close>

definition text_value :: "'n env \<Rightarrow> string option \<Rightarrow> VALUE" where
  \<comment> \<open>the Ruby value of a native text field: \<open>nil\<close> when unset, else the text itself\<close>
  "text_value E field =
     (case field of None \<Rightarrow> Qnil | Some x \<Rightarrow> String x (rxml_figure_encoding E None))"

definition status_ok :: "xml_event \<Rightarrow> bool" where
  \<comment> \<open>the call did not report \<open>-1\<close>\<close>
  "status_ok ev = (case ev of CallInt c r \<Rightarrow> r \<noteq> - 1 | _ \<Rightarrow> True)"

definition on_writer :: "addr \<Rightarrow> xml_event \<Rightarrow> bool" where
  \<comment> \<open>the call is an \<open>xmlTextWriter...\<close> function applied to the writer \<open>w\<close>\<close>
  "on_writer w ev = (case ev of CallInt (XmlTextWriter f p) r \<Rightarrow> p = w | _ \<Rightarrow> False)"

definition bool_contract :: "addr \<Rightarrow> 'n rt \<Rightarrow> (exn + VALUE) \<times> 'n rt \<Rightarrow> bool" where
  \<comment> \<open>what a method started in state \<open>s\<close> owes: its native calls are calls on the
      writer \<open>w\<close>; if it raises, it has made none; if it returns, it has made at least
      one, all but the last succeeded, and it returns \<open>true\<close> or \<open>false\<close> as the last
      one succeeded or reported \<open>-1\<close>\<close>
  "bool_contract w s rs =
     (let evs = calls_made s (snd rs)
      in list_all (on_writer w) evs \<and>
         (case fst rs of
            Inl e \<Rightarrow> evs = []
          | Inr v \<Rightarrow>
              evs \<noteq> [] \<and> list_all status_ok (butlast evs) \<and>
              v = (if status_ok (last evs) then Qtrue else Qfalse)))"

definition text_ok :: "'n env \<Rightarrow> rb_encoding \<Rightarrow> VALUE \<Rightarrow> bool" where
  \<comment> \<open>a text argument the marshalling accepts: \<open>nil\<close>, or a String whose bytes, once
      transcoded to the session's encoding, hold no NUL\<close>
  "text_ok E enc v =
     (case v of
        Qnil \<Rightarrow> True
      | String b e \<Rightarrow> CHR 0x00 \<notin> set (rb_str_conv_enc E b e enc)
      | _ \<Rightarrow> False)"

definition xml_text :: "'n env \<Rightarrow> rb_encoding \<Rightarrow> VALUE \<Rightarrow> string option" where
  \<comment> \<open>what the native function is handed for it: \<open>NULL\<close> for \<open>nil\<close>, else the transcoded
      bytes\<close>
  "xml_text E enc v =
     (case v of String b e \<Rightarrow> Some (rb_str_conv_enc E b e enc) | _ \<Rightarrow> None)"

definition arity_range :: "writer_cfunc \<Rightarrow> nat \<times> nat" where
  \<comment> \<open>the least and the greatest number of arguments a method takes\<close>
  "arity_range fn =
     (case fn of
        Rxml_writer_set_indent \<Rightarrow> (1, 1)
      | Rxml_writer_set_indent_string \<Rightarrow> (1, 1)
      | Rxml_writer_set_quote_char \<Rightarrow> (1, 1)
      | Rxml_writer_flush \<Rightarrow> (0, 1)
      | Rxml_writer_start_dtd \<Rightarrow> (1, 3)
      | Rxml_writer_start_dtd_entity \<Rightarrow> (1, 2)
      | Rxml_writer_start_dtd_attlist \<Rightarrow> (1, 1)
      | Rxml_writer_start_dtd_element \<Rightarrow> (1, 1)
      | Rxml_writer_write_dtd \<Rightarrow> (1, 4)
      | Rxml_writer_write_dtd_attlist \<Rightarrow> (2, 2)
      | Rxml_writer_write_dtd_element \<Rightarrow> (2, 2)
      | Rxml_writer_write_dtd_entity \<Rightarrow> (6, 6)
      | Rxml_writer_write_dtd_external_entity \<Rightarrow> (5, 5)
      | Rxml_writer_write_dtd_external_entity_contents \<Rightarrow> (3, 3)
      | Rxml_writer_write_dtd_internal_entity \<Rightarrow> (3, 3)
      | Rxml_writer_write_dtd_notation \<Rightarrow> (3, 3)
      | Rxml_writer_write_raw \<Rightarrow> (1, 1)
      | Rxml_writer_write_string \<Rightarrow> (1, 1)
      | Rxml_writer_start_attribute \<Rightarrow> (1, 1)
      | Rxml_writer_start_attribute_ns \<Rightarrow> (2, 3)
      | Rxml_writer_start_element \<Rightarrow> (1, 1)
      | Rxml_writer_start_element_ns \<Rightarrow> (2, 3)
      | Rxml_writer_start_document \<Rightarrow> (0, 1)
      | Rxml_writer_start_pi \<Rightarrow> (1, 1)
      | Rxml_writer_write_attribute \<Rightarrow> (2, 2)
      | Rxml_writer_write_attribute_ns \<Rightarrow> (2, 4)
      | Rxml_writer_write_comment \<Rightarrow> (1, 1)
      | Rxml_writer_write_cdata \<Rightarrow> (1, 1)
      | Rxml_writer_write_element \<Rightarrow> (1, 2)
      | Rxml_writer_write_element_ns \<Rightarrow> (2, 4)
      | Rxml_writer_write_pi \<Rightarrow> (2, 2)
      | _ \<Rightarrow> (0, 0))"

definition text_positions :: "writer_cfunc \<Rightarrow> nat list" where
  \<comment> \<open>the positions of a method's text arguments\<close>
  "text_positions fn =
     (case fn of
        Rxml_writer_set_indent_string \<Rightarrow> [0]
      | Rxml_writer_start_dtd \<Rightarrow> [0, 1, 2]
      | Rxml_writer_start_dtd_entity \<Rightarrow> [0]
      | Rxml_writer_start_dtd_attlist \<Rightarrow> [0]
      | Rxml_writer_start_dtd_element \<Rightarrow> [0]
      | Rxml_writer_write_dtd \<Rightarrow> [0, 1, 2, 3]
      | Rxml_writer_write_dtd_attlist \<Rightarrow> [0, 1]
      | Rxml_writer_write_dtd_element \<Rightarrow> [0, 1]
      | Rxml_writer_write_dtd_entity \<Rightarrow> [0, 1, 2, 3, 4]
      | Rxml_writer_write_dtd_external_entity \<Rightarrow> [0, 1, 2, 3]
      | Rxml_writer_write_dtd_external_entity_contents \<Rightarrow> [0, 1, 2]
      | Rxml_writer_write_dtd_internal_entity \<Rightarrow> [0, 1]
      | Rxml_writer_write_dtd_notation \<Rightarrow> [0, 1, 2]
      | Rxml_writer_write_raw \<Rightarrow> [0]
      | Rxml_writer_write_string \<Rightarrow> [0]
      | Rxml_writer_start_attribute \<Rightarrow> [0]
      | Rxml_writer_start_attribute_ns \<Rightarrow> [0, 1, 2]
      | Rxml_writer_start_element \<Rightarrow> [0]
      | Rxml_writer_start_element_ns \<Rightarrow> [0, 1, 2]
      | Rxml_writer_start_pi \<Rightarrow> [0]
      | Rxml_writer_write_attribute \<Rightarrow> [0, 1]
      | Rxml_writer_write_attribute_ns \<Rightarrow> [0, 1, 2, 3]
      | Rxml_writer_write_comment \<Rightarrow> [0]
      | Rxml_writer_write_cdata \<Rightarrow> [0]
      | Rxml_writer_write_element \<Rightarrow> [0, 1]
      | Rxml_writer_write_element_ns \<Rightarrow> [0, 1, 2, 3]
      | Rxml_writer_write_pi \<Rightarrow> [0, 1]
      | _ \<Rightarrow> [])"

definition well_formed ::
  "'n env \<Rightarrow> writer_cfunc \<Rightarrow> VALUE list \<Rightarrow> rxml_writer_object \<Rightarrow> bool" where
  \<comment> \<open>arguments a method accepts: their number is in range, every text argument is
      \<open>text_ok\<close>, the quote character is a String without NUL, the options of
      \<open>start_document\<close> are \<open>nil\<close> or a Hash with a usable encoding\<close>
  "well_formed E fn argv rwo =
     (fst (arity_range fn) \<le> length argv \<and> length argv \<le> snd (arity_range fn) \<and>
      list_all (\<lambda>i. text_ok E (encoding rwo) (scan_arg argv i)) (text_positions fn) \<and>
      (case fn of
         Rxml_writer_set_quote_char \<Rightarrow>
           (case StringValueCStr (scan_arg argv 0) of Inl e \<Rightarrow> False | Inr x \<Rightarrow> True)
       | Rxml_writer_start_document \<Rightarrow>
           (case start_document_options E (scan_arg argv 0) of
              Inl e \<Rightarrow> False
            | Inr x \<Rightarrow> True)
       | _ \<Rightarrow> True))"

definition native_calls ::
  "'n env \<Rightarrow> writer_cfunc \<Rightarrow> VALUE list \<Rightarrow> rxml_writer_object \<Rightarrow> writer_fn list" where
  \<comment> \<open>the native functions a method calls on well-formed arguments, in order, with the
      arguments they receive: \<open>t i\<close> is the \<open>i\<close>-th argument as text, \<open>a i\<close> the
      argument itself\<close>
  "native_calls E fn argv rwo =
     (let a = scan_arg argv; t = (\<lambda>i. xml_text E (encoding rwo) (scan_arg argv i))
      in case fn of
           Rxml_writer_set_indent \<Rightarrow> [SetIndent (RTEST (a 0))]
         | Rxml_writer_set_indent_string \<Rightarrow> [SetIndentString (t 0)]
         | Rxml_writer_set_quote_char \<Rightarrow>
             [SetQuoteChar
                (case StringValueCStr (a 0) of
                   Inr (c # cs) \<Rightarrow> c
                 | _ \<Rightarrow> CHR 0x00)]
         | Rxml_writer_flush \<Rightarrow> []
         | Rxml_writer_start_dtd \<Rightarrow> [StartDTD (t 0) (t 1) (t 2)]
         | Rxml_writer_start_dtd_entity \<Rightarrow> [StartDTDEntity (RTEST (a 1)) (t 0)]
         | Rxml_writer_start_dtd_attlist \<Rightarrow> [StartDTDAttlist (t 0)]
         | Rxml_writer_start_dtd_element \<Rightarrow> [StartDTDElement (t 0)]
         | Rxml_writer_write_dtd \<Rightarrow> [WriteDTD (t 0) (t 1) (t 2) (t 3)]
         | Rxml_writer_write_dtd_attlist \<Rightarrow> [WriteDTDAttlist (t 0) (t 1)]
         | Rxml_writer_write_dtd_element \<Rightarrow> [WriteDTDElement (t 0) (t 1)]
         | Rxml_writer_write_dtd_entity \<Rightarrow>
             [WriteDTDEntity (RTEST (a 5)) (t 0) (t 1) (t 2) (t 3) (t 4)]
         | Rxml_writer_write_dtd_external_entity \<Rightarrow>
             [WriteDTDExternalEntity (RTEST (a 4)) (t 0) (t 1) (t 2) (t 3)]
         | Rxml_writer_write_dtd_external_entity_contents \<Rightarrow>
             [WriteDTDExternalEntityContents (t 0) (t 1) (t 2)]
         | Rxml_writer_write_dtd_internal_entity \<Rightarrow>
             [WriteDTDInternalEntity (RTEST (a 2)) (t 0) (t 1)]
         | Rxml_writer_write_dtd_notation \<Rightarrow> [WriteDTDNotation (t 0) (t 1) (t 2)]
         | Rxml_writer_end_dtd \<Rightarrow> [EndDTD]
         | Rxml_writer_end_dtd_entity \<Rightarrow> [EndDTDEntity]
         | Rxml_writer_end_dtd_attlist \<Rightarrow> [EndDTDAttlist]
         | Rxml_writer_end_dtd_element \<Rightarrow> [EndDTDElement]
         | Rxml_writer_write_raw \<Rightarrow> [WriteRaw (t 0)]
         | Rxml_writer_write_string \<Rightarrow> [WriteString (t 0)]
         | Rxml_writer_start_cdata \<Rightarrow> [StartCDATA]
         | Rxml_writer_end_cdata \<Rightarrow> [EndCDATA]
         | Rxml_writer_start_attribute \<Rightarrow> [StartAttribute (t 0)]
         | Rxml_writer_start_attribute_ns \<Rightarrow> [StartAttributeNS (t 0) (t 1) (t 2)]
         | Rxml_writer_end_attribute \<Rightarrow> [EndAttribute]
         | Rxml_writer_start_element \<Rightarrow> [StartElement (t 0)]
         | Rxml_writer_start_element_ns \<Rightarrow> [StartElementNS (t 0) (t 1) (t 2)]
         | Rxml_writer_end_element \<Rightarrow> [EndElement]
         | Rxml_writer_full_end_element \<Rightarrow> [FullEndElement]
         | Rxml_writer_start_document \<Rightarrow>
             (case start_document_options E (a 0) of
                Inr (xencoding, xstandalone) \<Rightarrow> [StartDocument None xencoding xstandalone]
              | Inl e \<Rightarrow> [])
         | Rxml_writer_end_document \<Rightarrow> [EndDocument]
         | Rxml_writer_start_comment \<Rightarrow> [StartComment]
         | Rxml_writer_end_comment \<Rightarrow> [EndComment]
         | Rxml_writer_start_pi \<Rightarrow> [StartPI (t 0)]
         | Rxml_writer_end_pi \<Rightarrow> [EndPI]
         | Rxml_writer_write_attribute \<Rightarrow> [WriteAttribute (t 0) (t 1)]
         | Rxml_writer_write_attribute_ns \<Rightarrow> [WriteAttributeNS (t 0) (t 1) (t 2) (t 3)]
         | Rxml_writer_write_comment \<Rightarrow> [WriteComment (t 0)]
         | Rxml_writer_write_cdata \<Rightarrow> [WriteCDATA (t 0)]
         | Rxml_writer_write_element \<Rightarrow>
             (if Qnil = a 1 then [StartElement (t 0), EndElement]
              else [WriteElement (t 0) (t 1)])
         | Rxml_writer_write_element_ns \<Rightarrow>
             (if Qnil = a 3 then [StartElementNS (t 0) (t 1) (t 2), EndElement]
              else [WriteElementNS (t 0) (t 1) (t 2) (t 3)])
         | Rxml_writer_write_pi \<Rightarrow> [WritePI (t 0) (t 1)]
         | Rxml_writer_result \<Rightarrow> [])"

fun run_native :: "'n env \<Rightarrow> addr \<Rightarrow> writer_fn list \<Rightarrow> 'n rt \<Rightarrow> (exn + VALUE) \<times> 'n rt" where
  \<comment> \<open>the native functions called in order on the writer \<open>w\<close>, up to the first that
      reports \<open>-1\<close>: \<open>false\<close> if one does, \<open>true\<close> if none does\<close>
  "run_native E w [] s = (Inr Qtrue, s)"
| "run_native E w (f # fs) s =
     (case call_int E (XmlTextWriter f w) s of
        (ret, s1) \<Rightarrow> if ret = - 1 then (Inr Qfalse, s1) else run_native E w fs s1)"

definition start_then_end ::
  "'n env \<Rightarrow> VALUE \<Rightarrow> rxml_writer_object \<Rightarrow> 'n rt \<Rightarrow> (exn + VALUE) \<times> 'n rt" where
  \<comment> \<open>the spec's "\<open>start_element(name)\<close> immediately followed by \<open>end_element()\<close>", as a
      caller writes it: two calls in sequence, the second made whatever the first
      returned (an exception of the first ends the sequence)\<close>
  "start_then_end E nm rwo s =
     (case rxml_writer_start_element E nm rwo s of
        (Inl e, s1) \<Rightarrow> (Inl e, s1)
      | (Inr started, s1) \<Rightarrow> rxml_writer_end_element E rwo s1)"

definition composite_shortcuts :: "string list" where
  \<comment> \<open>the methods that write a whole construct at once\<close>
  "composite_shortcuts =
     [''write_comment'', ''write_cdata'', ''write_element'', ''write_element_ns'',
      ''write_attribute'', ''write_attribute_ns'', ''write_pi'', ''write_dtd'',
      ''write_dtd_attlist'', ''write_dtd_element'', ''write_dtd_entity'',
      ''write_dtd_external_entity'', ''write_dtd_external_entity_contents'',
      ''write_dtd_internal_entity'', ''write_dtd_notation'']"

definition rwo_inv :: "rxml_writer_object \<Rightarrow> bool" where
  \<comment> \<open>what the four constructors establish and no method changes: a buffer exactly
      for the string sink, and a Document as \<open>output\<close> of the document sink\<close>
  "rwo_inv rwo =
     ((buffer rwo \<noteq> None) = (output_type rwo = RXMLW_OUTPUT_STRING) \<and>
      (if output_type rwo = RXMLW_OUTPUT_DOC
       then (case output rwo of Document d \<Rightarrow> True | _ \<Rightarrow> False)
       else True))"

definition flush_settled :: "'n env \<Rightarrow> addr \<Rightarrow> addr \<Rightarrow> 'n rt \<Rightarrow> bool" where
  \<comment> \<open>about the native library in state \<open>s\<close>: flushing the writer \<open>w\<close> succeeds and
      leaves the buffer \<open>b\<close> empty (nothing was waiting to be flushed)\<close>
  "flush_settled E w b s =
     (fst (call_int E (XmlTextWriter Flush w) s) \<noteq> - 1 \<and>
      xmlBuffers (world (snd (call_int E (XmlTextWriter Flush w) s))) b = Some [])"

section \<open>An executable instance of the native library\<close>

text \<open>
  The theorems below hold for every \<open>env\<close>. To run the model on concrete inputs, \<open>sim\<close>
  is a small instance: DTD objects and buffers are allocated at increasing addresses,
  and one writer keeps its unflushed output and its stack of open elements. It follows
  libxml2 where the examples need it: \<open>xmlNewDtd\<close> links the object to the document it
  is given, \<open>xmlCreateIntSubset\<close> also makes the document its parent,
  \<open>xmlTextWriterStartElement\<close> refuses a missing or empty name, \<open>xmlTextWriterEndElement\<close>
  closes the innermost open element and refuses when there is none, \<open>xmlTextWriterFlush\<close>
  moves the unflushed output to the writer's buffer. Text is written unescaped, and
  the functions not listed report \<open>-1\<close>.
\<close>

record sim_state =
  next_addr :: addr
  unflushed :: string
  open_elements :: "(string \<times> bool) list"
  sink :: "addr option"
  broken :: bool

text \<open>
  In \<open>open_elements\<close> the innermost element comes first, paired with \<open>True\<close> while its
  start tag is still open; \<open>broken\<close> makes every flush fail.
\<close>

definition sim_alloc :: "sim_state xml_world \<Rightarrow> addr \<times> sim_state xml_world" where
  "sim_alloc w = (next_addr (hidden w), w\<lparr>hidden := (hidden w)\<lparr>next_addr := Suc (next_addr (hidden w))\<rparr>\<rparr>)"

definition sim_new_dtd ::
  "xmlDtd \<Rightarrow> sim_state xml_world \<Rightarrow> addr option \<times> sim_state xml_world" where
  "sim_new_dtd d w = (let (p, w1) = sim_alloc w in (Some p, w1\<lparr>dtds := (dtds w1)(p \<mapsto> d)\<rparr>))"

definition sim_ptr :: "ptr_call \<Rightarrow> sim_state xml_world \<Rightarrow> addr option \<times> sim_state xml_world" where
  "sim_ptr c w =
     (case c of
        XmlNewDtd xdoc xname xpublic xsystem \<Rightarrow>
          sim_new_dtd \<lparr>type = 14, name = xname, ExternalID = Some xpublic,
                       SystemID = Some xsystem, doc = xdoc, parent = None\<rparr> w
      | XmlCreateIntSubset xdoc xname xpublic xsystem \<Rightarrow>
          sim_new_dtd \<lparr>type = 14, name = xname, ExternalID = Some xpublic,
                       SystemID = Some xsystem, doc = xdoc, parent = xdoc\<rparr> w
      | XmlParseDTD xpublic xsystem \<Rightarrow>
          if xsystem = [] then (None, w\<lparr>xmlGetLastError := ''failed to load external entity''\<rparr>)
          else sim_new_dtd \<lparr>type = 14, name = Some ''none'', ExternalID = Some xpublic,
                            SystemID = Some xsystem, doc = None, parent = None\<rparr> w
      | XmlIOParseDTD buf \<Rightarrow>
          sim_new_dtd \<lparr>type = 14, name = Some ''none'', ExternalID = None,
                       SystemID = None, doc = None, parent = None\<rparr> w
      | XmlBufferCreate \<Rightarrow>
          (let (p, w1) = sim_alloc w in (Some p, w1\<lparr>xmlBuffers := (xmlBuffers w1)(p \<mapsto> [])\<rparr>))
      | XmlNewTextWriterMemory buf \<Rightarrow>
          (let (p, w1) = sim_alloc w in (Some p, w1\<lparr>hidden := (hidden w1)\<lparr>sink := buf\<rparr>\<rparr>))
      | XmlNewTextWriterDoc \<Rightarrow>
          (let (d, w1) = sim_alloc w; (p, w2) = sim_alloc w1
           in (Some p, w2\<lparr>doc_out := Some d\<rparr>))
      | _ \<Rightarrow> (let (p, w1) = sim_alloc w in (Some p, w1)))"

definition sim_emit :: "string \<Rightarrow> sim_state xml_world \<Rightarrow> sim_state xml_world" where
  "sim_emit t w = w\<lparr>hidden := (hidden w)\<lparr>unflushed := unflushed (hidden w) @ t\<rparr>\<rparr>"

definition sim_close_start_tag :: "sim_state xml_world \<Rightarrow> sim_state xml_world" where
  "sim_close_start_tag w =
     (case open_elements (hidden w) of
        (n, True) # rest \<Rightarrow>
          sim_emit ''>'' (w\<lparr>hidden := (hidden w)\<lparr>open_elements := (n, False) # rest\<rparr>\<rparr>)
      | _ \<Rightarrow> w)"

definition sim_writer :: "writer_fn \<Rightarrow> sim_state xml_world \<Rightarrow> int \<times> sim_state xml_world" where
  "sim_writer f w =
     (case f of
        Flush \<Rightarrow>
          if broken (hidden w) then (- 1, w\<lparr>xmlGetLastError := ''flush error''\<rparr>)
          else
            (let out = unflushed (hidden w);
                 w1 = w\<lparr>hidden := (hidden w)\<lparr>unflushed := []\<rparr>\<rparr>
             in (int (length out),
                 case sink (hidden w) of
                   None \<Rightarrow> w1
                 | Some b \<Rightarrow>
                     (case xmlBuffers w1 b of
                        None \<Rightarrow> w1
                      | Some old \<Rightarrow> w1\<lparr>xmlBuffers := (xmlBuffers w1)(b \<mapsto> old @ out)\<rparr>)))
      | StartElement nm \<Rightarrow>
          (case nm of
             None \<Rightarrow> (- 1, w)
           | Some n \<Rightarrow>
               if n = [] then (- 1, w)
               else
                 (let w1 = sim_close_start_tag w;
                      w2 = sim_emit (''<'' @ n) w1
                  in (int (length n) + 1,
                      w2\<lparr>hidden := (hidden w2)
                            \<lparr>open_elements := (n, True) # open_elements (hidden w2)\<rparr>\<rparr>)))
      | EndElement \<Rightarrow>
          (case open_elements (hidden w) of
             [] \<Rightarrow> (- 1, w)
           | (n, fresh) # rest \<Rightarrow>
               (let t = (if fresh then ''/>'' else ''</'' @ n @ ''>'')
                in (int (length t),
                    sim_emit t (w\<lparr>hidden := (hidden w)\<lparr>open_elements := rest\<rparr>\<rparr>))))
      | WriteString content \<Rightarrow>
          (case content of
             None \<Rightarrow> (- 1, w)
           | Some t \<Rightarrow> (int (length t), sim_emit t (sim_close_start_tag w)))
      | _ \<Rightarrow> (- 1, w))"

definition sim_int :: "int_call \<Rightarrow> sim_state xml_world \<Rightarrow> int \<times> sim_state xml_world" where
  "sim_int c w =
     (case c of
        XmlParserInputBufferPush buf len str \<Rightarrow> (int len, w)
      | XmlTextWriter f p \<Rightarrow> sim_writer f w)"

definition sim_void :: "void_call \<Rightarrow> sim_state xml_world \<Rightarrow> sim_state xml_world" where
  "sim_void c w =
     (case c of
        XmlFreeDtd p \<Rightarrow> w\<lparr>dtds := (dtds w)(p := None)\<rparr>
      | XmlSetTreeDoc p xdoc \<Rightarrow>
          (case dtds w p of
             None \<Rightarrow> w
           | Some d \<Rightarrow> w\<lparr>dtds := (dtds w)(p \<mapsto> d\<lparr>doc := xdoc\<rparr>)\<rparr>)
      | XmlBufferFree b \<Rightarrow> w\<lparr>xmlBuffers := (xmlBuffers w)(b := None)\<rparr>
      | XmlBufferEmpty b \<Rightarrow>
          (case xmlBuffers w b of
             None \<Rightarrow> w
           | Some old \<Rightarrow> w\<lparr>xmlBuffers := (xmlBuffers w)(b \<mapsto> [])\<rparr>)
      | XmlFreeTextWriter p \<Rightarrow> w)"

definition sim :: "sim_state env" where
  "sim =
     \<lparr>xml_ptr = sim_ptr, xml_int = sim_int, xml_void = sim_void,
      xmlGetCharEncodingName = (\<lambda>i. if i = 1 then Some ''UTF-8'' else None),
      rxml_figure_encoding = (\<lambda>x. case x of None \<Rightarrow> ''UTF-8'' | Some e \<Rightarrow> e),
      rb_enc_get = (\<lambda>v. case v of String b e \<Rightarrow> Some e | _ \<Rightarrow> None),
      rb_str_conv_enc = (\<lambda>b from to. b)\<rparr>"

definition sim_start :: "sim_state rt" where
  \<comment> \<open>nothing allocated, nothing called; addresses start at 1\<close>
  "sim_start =
     \<lparr>world = \<lparr>dtds = (\<lambda>p. None), xmlBuffers = (\<lambda>p. None), xmlGetLastError = [],
               doc_out = None,
               hidden = \<lparr>next_addr = 1, unflushed = [], open_elements = [], sink = None,
                         broken = False\<rparr>\<rparr>,
      trace = []\<rparr>"

definition utf8 :: "string \<Rightarrow> VALUE" where
  "utf8 b = String b ''UTF-8''"

subsection \<open>Example states\<close>

definition ex_standalone :: "sim_state rt" where
  \<comment> \<open>after \<open>XML::Dtd.new("<!ELEMENT a (#PCDATA)>")\<close>: the DTD object is at address 2\<close>
  "ex_standalone =
     snd (rxml_dtd_initialize sim [utf8 ''<!ELEMENT a (#PCDATA)>''] rxml_dtd_alloc sim_start)"

definition ex_attached :: "sim_state rt" where
  \<comment> \<open>after \<open>XML::Dtd.new("-//X//EN", "x.dtd", "x", doc)\<close>: the DTD object is at address 1\<close>
  "ex_attached =
     snd (rxml_dtd_initialize sim [utf8 ''-//X//EN'', utf8 ''x.dtd'', utf8 ''x'', Document 7]
            rxml_dtd_alloc sim_start)"

definition ex_subset_argv :: "VALUE list" where
  \<comment> \<open>the arguments of \<open>XML::Dtd.new("-//X//EN", "x.dtd", "x")\<close>: no document\<close>
  "ex_subset_argv = [utf8 ''-//X//EN'', utf8 ''x.dtd'', utf8 ''x'']"

definition ex_leak :: "sim_state rt" where
  "ex_leak = snd (rxml_dtd_initialize sim ex_subset_argv rxml_dtd_alloc sim_start)"

definition ex_rwo :: rxml_writer_object where
  \<comment> \<open>the struct \<open>XML::Writer.string\<close> makes: buffer at address 1, writer at address 2\<close>
  "ex_rwo =
     \<lparr>output = Qnil, encoding = ''UTF-8'', buffer = Some 1, writer = 2,
      output_type = RXMLW_OUTPUT_STRING, closed = 0\<rparr>"

definition ex_session :: "sim_state rt" where
  "ex_session = snd (rxml_writer_string sim sim_start)"

definition ex_open :: "sim_state rt" where
  \<comment> \<open>after \<open>start_element("a")\<close>: the element \<open>a\<close> is open\<close>
  "ex_open = snd (rxml_writer_start_element sim (utf8 ''a'') ex_rwo ex_session)"

definition ex_flushed :: "sim_state rt" where
  \<comment> \<open>\<open>ex_open\<close> after the native flush: the buffer holds \<open><a\<close>\<close>
  "ex_flushed = snd (call_int sim (XmlTextWriter Flush 2) ex_open)"

definition ex_broken :: "sim_state rt" where
  \<comment> \<open>\<open>ex_open\<close> with a writer whose flush fails\<close>
  "ex_broken =
     ex_open\<lparr>world := (world ex_open)\<lparr>hidden := (hidden (world ex_open))\<lparr>broken := True\<rparr>\<rparr>\<rparr>"

definition ex_io_rwo :: rxml_writer_object where
  \<comment> \<open>a stream session writing to the Ruby object \<open>Object ''StringIO''\<close>\<close>
  "ex_io_rwo =
     \<lparr>output = Object ''StringIO'', encoding = ''UTF-8'', buffer = None, writer = 2,
      output_type = RXMLW_OUTPUT_IO, closed = 0\<rparr>"

definition ex_mem :: ruby_mem where
  \<comment> \<open>the struct of that session at address 9; nothing written yet\<close>
  "ex_mem = \<lparr>rwos = (\<lambda>p. if p = 9 then Some ex_io_rwo else None), written = []\<rparr>"

definition ex_doc_rwo :: rxml_writer_object where
  \<comment> \<open>a document session whose document is at address 1\<close>
  "ex_doc_rwo =
     \<lparr>output = Document 1, encoding = ''UTF-8'', buffer = None, writer = 2,
      output_type = RXMLW_OUTPUT_DOC, closed = 0\<rparr>"

section \<open>Properties of ruby_xml_dtd.c\<close>

lemmas sim_simps =
  sim_def sim_ptr_def sim_int_def sim_void_def sim_new_dtd_def sim_alloc_def sim_start_def
  sim_writer_def sim_emit_def sim_close_start_tag_def utf8_def

lemmas dtd_simps =
  rxml_dtd_initialize_def dtd_new_subset_def dtd_new_parse_def dtd_new_string_def
  Check_Type_STRING_def scan_arg_def cstr_def call_ptr_def call_int_def call_void_def
  rxml_dtd_alloc_def rxml_raise_def

lemma calls_made_refl: "calls_made s s = []"
  by (simp add: calls_made_def)

lemma calls_made_call_void: "calls_made s (call_void E c s) = [CallVoid c]"
  by (simp add: calls_made_def call_void_def)

lemma ex_standalone_dtd:
  "dtds (world ex_standalone) 2 =
     Some \<lparr>type = 14, name = Some ''none'', ExternalID = None, SystemID = None,
           doc = None, parent = None\<rparr>"
  by (simp add: ex_standalone_def dtd_simps sim_simps)

lemma ex_attached_dtd:
  "dtds (world ex_attached) 1 =
     Some \<lparr>type = 14, name = Some ''x'', ExternalID = Some ''-//X//EN'',
           SystemID = Some ''x.dtd'', doc = Some 7, parent = None\<rparr>"
  by (simp add: ex_attached_def dtd_simps sim_simps)

text \<open>
  C1. The release routine \<open>rxml_dtd_free\<close>, which the collector invokes on the native
  object of a handle that carries it as its hook, frees the object (calls \<open>xmlFreeDtd\<close>
  on it, and makes no other native call) if and only if the object has no owning
  document and no parent node; when either is set it is a no-op: the state, trace
  included, is returned unchanged.
\<close>

theorem rxml_dtd_free_iff_unowned:
  assumes "dtds (world s) xdtd = Some d"
  shows "\<exists>s'. rxml_dtd_free E xdtd s = Some s'
          \<and> rb_gc_collect E \<lparr>dfree = Some Rxml_dtd_free, data = Some xdtd\<rparr> s = Some s'
          \<and> (CallVoid (XmlFreeDtd xdtd) \<in> set (calls_made s s')
               \<longleftrightarrow> doc d = None \<and> parent d = None)
          \<and> calls_made s s' =
               (if doc d = None \<and> parent d = None then [CallVoid (XmlFreeDtd xdtd)] else [])
          \<and> (if doc d = None \<and> parent d = None
              then world s' = xml_void E (XmlFreeDtd xdtd) (world s)
              else s' = s)"
  using assms
  by (simp add: rxml_dtd_free_def rb_gc_collect_def calls_made_call_void calls_made_refl)
    (simp add: call_void_def)

text \<open>
  On the example states: the DTD parsed from a string, owned by nobody, is freed; the
  DTD attached to document 7 is left alone.
\<close>

theorem rxml_dtd_free_iff_unowned_witness:
  "(\<exists>s'. rxml_dtd_free sim 2 ex_standalone = Some s'
       \<and> calls_made ex_standalone s' = [CallVoid (XmlFreeDtd 2)]
       \<and> dtds (world s') 2 = None)
   \<and> rxml_dtd_free sim 1 ex_attached = Some ex_attached"
  using rxml_dtd_free_iff_unowned [OF ex_standalone_dtd, of sim]
    rxml_dtd_free_iff_unowned [OF ex_attached_dtd, of sim]
  by (auto simp: sim_def sim_void_def)

text \<open>
  C2. The claim is that the 3-5 argument constructor disables the release hook exactly
  when a document was given. The constructor disables it on every successful path.
\<close>

lemma dtd_new_subset_dfree:
  assumes "dtd_new_subset E argv self s = (Inr self', s')"
  shows "dfree self' = None"
  using assms
  by (auto simp: dtd_new_subset_def Let_def
        split: sum.splits if_splits prod.splits option.splits)

lemma subset_constructor_clears_hook:
  assumes "length argv \<in> {3, 4, 5}"
    and "rxml_dtd_initialize E argv self s = (Inr self', s')"
  shows "dfree self' = None"
  using assms
  by (auto simp: rxml_dtd_initialize_def Let_def dest: dtd_new_subset_dfree)

text \<open>
  C2, at \<open>XML::Dtd.new("-//X//EN", "x.dtd", "x")\<close>: the handle comes back with its hook
  cleared although the new DTD object has neither a document nor a parent, so that
  collecting the handle frees nothing; with the hook \<open>rxml_dtd_alloc\<close> installed, the
  collection would have called \<open>xmlFreeDtd\<close>.
\<close>

theorem subset_without_document_leaks:
  "rxml_dtd_initialize sim ex_subset_argv rxml_dtd_alloc sim_start
     = (Inr \<lparr>dfree = None, data = Some 1\<rparr>, ex_leak)
   \<and> dtds (world ex_leak) 1
     = Some \<lparr>type = 14, name = Some ''x'', ExternalID = Some ''-//X//EN'',
             SystemID = Some ''x.dtd'', doc = None, parent = None\<rparr>
   \<and> rb_gc_collect sim \<lparr>dfree = None, data = Some 1\<rparr> ex_leak = Some ex_leak
   \<and> rb_gc_collect sim \<lparr>dfree = Some Rxml_dtd_free, data = Some 1\<rparr> ex_leak
     = Some (call_void sim (XmlFreeDtd 1) ex_leak)"
  by (simp add: ex_leak_def ex_subset_argv_def dtd_simps sim_simps rb_gc_collect_def
        rxml_dtd_free_def)

lemma map_of_rxml_init_dtd:
  "map_of rxml_init_dtd ''name'' = Some (Rxml_dtd_name_get, 0)"
  "map_of rxml_init_dtd ''external_id'' = Some (Rxml_dtd_external_id_get, 0)"
  "map_of rxml_init_dtd ''uri'' = Some (Rxml_dtd_uri_get, 0)"
  "map_of rxml_init_dtd ''system_id'' = Some (Rxml_dtd_uri_get, 0)"
  "map_of rxml_init_dtd ''node_type'' = Some (Rxml_dtd_type, 0)"
  by (simp_all add: rxml_init_dtd_def rb_define_method_def rb_define_alias_def)

text \<open>
  C8. On a constructed handle (its \<open>DATA_PTR\<close> points to a DTD object), \<open>name\<close>,
  \<open>external_id\<close> and \<open>uri\<close> return \<open>nil\<close> when the native field is unset and its text
  otherwise, \<open>node_type\<close> returns the integer tag, none of them changes the handle or
  the native state, and \<open>system_id\<close> is \<open>uri\<close> under a second name.
\<close>

theorem dtd_accessors:
  assumes "data self = Some p" and "dtds (world s) p = Some d"
  shows "dtd_send E ''name'' [] self s = (Inr (text_value E (name d)), self, s)
       \<and> dtd_send E ''external_id'' [] self s = (Inr (text_value E (ExternalID d)), self, s)
       \<and> dtd_send E ''uri'' [] self s = (Inr (text_value E (SystemID d)), self, s)
       \<and> dtd_send E ''node_type'' [] self s = (Inr (Fixnum (type d)), self, s)
       \<and> dtd_send E ''system_id'' argv self s = dtd_send E ''uri'' argv self s
       \<and> text_value E None = Qnil"
  using assms
  by (simp add: dtd_send_def map_of_rxml_init_dtd dtd_apply_def text_value_def
        rxml_dtd_name_get_def rxml_dtd_external_id_get_def rxml_dtd_uri_get_def
        rxml_dtd_type_def Data_Get_Struct_def rxml_new_cstr_def split: option.splits)

text \<open>
  On the DTD parsed from a string, which has a name and no identifiers.
\<close>

theorem dtd_accessors_witness:
  "dtd_send sim ''name'' [] (rxml_dtd_wrap 2) ex_standalone
     = (Inr (String ''none'' ''UTF-8''), rxml_dtd_wrap 2, ex_standalone)
   \<and> dtd_send sim ''external_id'' [] (rxml_dtd_wrap 2) ex_standalone
     = (Inr Qnil, rxml_dtd_wrap 2, ex_standalone)
   \<and> dtd_send sim ''system_id'' [] (rxml_dtd_wrap 2) ex_standalone
     = (Inr Qnil, rxml_dtd_wrap 2, ex_standalone)
   \<and> dtd_send sim ''node_type'' [] (rxml_dtd_wrap 2) ex_standalone
     = (Inr (Fixnum 14), rxml_dtd_wrap 2, ex_standalone)"
proof -
  have h: "data (rxml_dtd_wrap 2) = Some 2"
    by (simp add: rxml_dtd_wrap_def)
  show ?thesis
    using dtd_accessors [OF h ex_standalone_dtd, of sim "[]"]
    by (simp add: text_value_def sim_def)
qed

lemma dtd_new_subset_type_error:
  assumes "length argv \<in> {4, 5}" and "argv ! 3 \<noteq> Qnil" and "\<forall>p. argv ! 3 \<noteq> Document p"
  shows "\<exists>msg. dtd_new_subset E argv self s = (Inl (TypeError msg), s)"
  using assms
  by (cases "argv ! 3")
     (auto simp: dtd_new_subset_def Let_def scan_arg_def Check_Type_STRING_def
           split: sum.splits VALUE.splits)

text \<open>
  C9. With four or five arguments of which the fourth is neither \<open>nil\<close> nor a Document,
  the constructor raises a TypeError; with no argument or more than five it raises an
  ArgumentError. In both cases the state comes back as it was: no native call has been
  made.
\<close>

theorem dtd_initialize_errors_before_native:
  "(length argv \<in> {4, 5} \<and> argv ! 3 \<noteq> Qnil \<and> (\<forall>p. argv ! 3 \<noteq> Document p)
      \<longrightarrow> (\<exists>msg. fst (rxml_dtd_initialize E argv self s) = Inl (TypeError msg))
          \<and> snd (rxml_dtd_initialize E argv self s) = s
          \<and> calls_made s (snd (rxml_dtd_initialize E argv self s)) = [])
   \<and> (length argv = 0 \<or> 5 < length argv
      \<longrightarrow> fst (rxml_dtd_initialize E argv self s)
            = Inl (ArgError ''wrong number of arguments'')
          \<and> snd (rxml_dtd_initialize E argv self s) = s
          \<and> calls_made s (snd (rxml_dtd_initialize E argv self s)) = [])"
  using dtd_new_subset_type_error [of argv E self s]
  by (auto simp: rxml_dtd_initialize_def Let_def calls_made_refl)

text \<open>
  With an Array in the place of the document, and with no argument at all.
\<close>

theorem dtd_initialize_errors_before_native_witness:
  "(\<exists>msg. rxml_dtd_initialize sim [utf8 ''-//X//EN'', utf8 ''x.dtd'', Qnil, Object ''Array'']
             rxml_dtd_alloc sim_start = (Inl (TypeError msg), sim_start))
   \<and> rxml_dtd_initialize sim [] rxml_dtd_alloc sim_start
       = (Inl (ArgError ''wrong number of arguments''), sim_start)
   \<and> trace sim_start = []"
  using dtd_initialize_errors_before_native
          [of "[utf8 ''-//X//EN'', utf8 ''x.dtd'', Qnil, Object ''Array'']" sim
              rxml_dtd_alloc sim_start]
        dtd_initialize_errors_before_native [of "[]" sim rxml_dtd_alloc sim_start]
  by (cases "rxml_dtd_initialize sim [utf8 ''-//X//EN'', utf8 ''x.dtd'', Qnil, Object ''Array'']
               rxml_dtd_alloc sim_start";
      cases "rxml_dtd_initialize sim [] rxml_dtd_alloc sim_start")
     (simp add: sim_start_def)

section \<open>Properties of ruby_xml_writer.c\<close>

lemma call_int_trace:
  "trace (snd (call_int E c s)) = trace s @ [CallInt c (fst (call_int E c s))]"
  by (simp add: call_int_def split: prod.splits)

lemma calls_made_append: "trace s' = trace s @ evs \<Longrightarrow> calls_made s s' = evs"
  by (simp add: calls_made_def)

lemma bool_contract_raise: "bool_contract w s (Inl e, s)"
  by (simp add: bool_contract_def calls_made_def)

lemma bool_contract_call:
  "bool_contract w s (bool_result (call_int E (XmlTextWriter f w) s))"
  by (simp add: bool_contract_def bool_result_def calls_made_append [OF call_int_trace]
        on_writer_def status_ok_def)

lemma bool_contract_void:
  "bool_contract (writer rwo) s (invoke_void_arg_function E f rwo s)"
  by (simp add: invoke_void_arg_function_def bool_contract_call)

lemma bool_contract_strings:
  "bool_contract (writer rwo) s (invoke_strings_function E f vs rwo s)"
  by (simp add: invoke_strings_function_def bool_contract_call bool_contract_raise
        split: sum.splits)

lemma bool_contract_single:
  "bool_contract (writer rwo) s (invoke_single_arg_function E f v rwo s)"
  by (simp add: invoke_single_arg_function_def bool_contract_strings)

lemma bool_contract_start_end:
  "bool_contract (writer rwo) s
     (case invoke_strings_function E f vs rwo s of
        (Inl e, s1) \<Rightarrow> (Inl e, s1)
      | (Inr started, s1) \<Rightarrow>
          if Qfalse = started then (Inr Qfalse, s1)
          else rxml_writer_end_element E rwo s1)"
proof (cases "encodeStrings E (encoding rwo) vs")
  case (Inl e)
  then show ?thesis
    by (simp add: invoke_strings_function_def bool_contract_raise)
next
  case (Inr xs)
  obtain r w1 where c1: "xml_int E (XmlTextWriter (f xs) (writer rwo)) (world s) = (r, w1)"
    by (cases "xml_int E (XmlTextWriter (f xs) (writer rwo)) (world s)")
  show ?thesis
    using Inr c1
    by (simp add: invoke_strings_function_def rxml_writer_end_element_def
          invoke_void_arg_function_def bool_contract_def bool_result_def call_int_def
          calls_made_def on_writer_def status_ok_def split: prod.splits)
qed

lemma bool_contract_write_element:
  "bool_contract (writer rwo) s (rxml_writer_write_element E argv rwo s)"
  by (simp add: rxml_writer_write_element_def rxml_writer_start_element_def
        invoke_single_arg_function_def
        bool_contract_raise bool_contract_start_end bool_contract_strings Let_def
        split: option.splits)

lemma bool_contract_write_element_ns:
  "bool_contract (writer rwo) s (rxml_writer_write_element_ns E argv rwo s)"
  by (simp add: rxml_writer_write_element_ns_def rxml_writer_start_element_ns_def
        rb_scan_args_def
        bool_contract_raise bool_contract_start_end bool_contract_strings Let_def
        split: option.splits)

lemma bool_contract_start_document:
  "case rxml_writer_start_document E argv rwo s of
     (r, rwo', s') \<Rightarrow> writer rwo' = writer rwo \<and> bool_contract (writer rwo) s (r, s')"
  using bool_contract_call [of "writer rwo" s E]
  by (simp add: rxml_writer_start_document_def bool_contract_raise Let_def bool_result_def
        split: option.splits sum.splits prod.splits)

lemmas writer_method_defs =
  rxml_writer_set_indent_def rxml_writer_set_indent_string_def 
  rxml_writer_write_comment_def rxml_writer_write_cdata_def 
  rxml_writer_start_element_def rxml_writer_start_element_ns_def 
  rxml_writer_end_element_def rxml_writer_write_attribute_def 
  rxml_writer_write_attribute_ns_def rxml_writer_write_pi_def 
  rxml_writer_write_string_def rxml_writer_write_raw_def 
  rxml_writer_start_attribute_def rxml_writer_start_attribute_ns_def 
  rxml_writer_end_attribute_def rxml_writer_start_comment_def 
  rxml_writer_end_comment_def rxml_writer_full_end_element_def 
  rxml_writer_start_cdata_def rxml_writer_end_cdata_def 
  rxml_writer_end_document_def rxml_writer_start_pi_def rxml_writer_end_pi_def 
  rxml_writer_start_dtd_def rxml_writer_start_dtd_element_def 
  rxml_writer_start_dtd_entity_def rxml_writer_start_dtd_attlist_def 
  rxml_writer_end_dtd_def rxml_writer_end_dtd_entity_def 
  rxml_writer_end_dtd_attlist_def rxml_writer_end_dtd_element_def 
  rxml_writer_write_dtd_def rxml_writer_write_dtd_attlist_def 
  rxml_writer_write_dtd_element_def rxml_writer_write_dtd_entity_def 
  rxml_writer_write_dtd_external_entity_def 
  rxml_writer_write_dtd_external_entity_contents_def 
  rxml_writer_write_dtd_internal_entity_def rxml_writer_write_dtd_notation_def 
  rxml_writer_set_quote_char_def

lemma bool_contract_keep:
  "bool_contract (writer rwo) s rs \<Longrightarrow>
   (case keep rwo rs of
      (r, rwo', s') \<Rightarrow> writer rwo' = writer rwo \<and> bool_contract (writer rwo) s (r, s'))"
  by (simp add: keep_def)

lemma bool_contract_methods:
  assumes "fn \<noteq> Rxml_writer_flush" and "fn \<noteq> Rxml_writer_result"
  shows "case writer_apply E fn argv rwo s of
           (r, rwo', s') \<Rightarrow> writer rwo' = writer rwo \<and> bool_contract (writer rwo) s (r, s')"
  using assms
  by (cases fn)
     (simp_all add: writer_apply_def writer_method_defs bool_contract_keep
        bool_contract_start_document bool_contract_write_element
        bool_contract_write_element_ns bool_contract_void bool_contract_single
        bool_contract_strings bool_contract_call bool_contract_raise
        split: option.splits sum.splits)

lemma rxml_init_writer_names:
  assumes "map_of rxml_init_writer m = Some (fn, arity)"
    and "m \<noteq> ''flush''" and "m \<noteq> ''result''"
  shows "fn \<noteq> Rxml_writer_flush \<and> fn \<noteq> Rxml_writer_result"
  using assms
  by (auto simp: rxml_init_writer_def rb_define_method_def split: if_splits)

lemma writer_send_contract:
  assumes "m \<noteq> ''flush''" and "m \<noteq> ''result''"
  shows "case writer_send E m argv rwo s of
           (r, rwo', s') \<Rightarrow> writer rwo' = writer rwo \<and> bool_contract (writer rwo) s (r, s')"
proof (cases "map_of rxml_init_writer m")
  case None
  then show ?thesis
    by (simp add: writer_send_def bool_contract_raise)
next
  case (Some fa)
  obtain fn arity where fa: "fa = (fn, arity)"
    by (cases fa)
  from rxml_init_writer_names [OF Some [unfolded fa] assms]
  have "fn \<noteq> Rxml_writer_flush" and "fn \<noteq> Rxml_writer_result"
    by simp_all
  from bool_contract_methods [OF this, where E = E and argv = argv and rwo = rwo and s = s]
  show ?thesis
    using Some fa
    by (simp add: writer_send_def bool_contract_raise)
qed

lemma encodeString_ok:
  "text_ok E enc v \<Longrightarrow> encodeString E enc v = Inr (xml_text E enc v)"
  by (cases v) (simp_all add: text_ok_def xml_text_def encodeString_def StringValueCStr_def
       NIL_P_def)

lemma encodeStrings_ok:
  "list_all (text_ok E enc) vs \<Longrightarrow> encodeStrings E enc vs = Inr (map (xml_text E enc) vs)"
  by (induction vs) (simp_all add: encodeString_ok)

lemma run_native_single:
  "run_native E w [f] s = bool_result (call_int E (XmlTextWriter f w) s)"
  by (simp add: bool_result_def split: prod.splits)

text \<open>
  The equations of \<open>run_native\<close> are applied by hand below.
\<close>

declare run_native.simps [simp del]

lemma invoke_strings_ok:
  "list_all (text_ok E (encoding rwo)) vs \<Longrightarrow>
   invoke_strings_function E f vs rwo s
     = run_native E (writer rwo) [f (map (xml_text E (encoding rwo)) vs)] s"
  by (simp add: invoke_strings_function_def encodeStrings_ok run_native_single)

lemma invoke_void_ok:
  "invoke_void_arg_function E f rwo s = run_native E (writer rwo) [f] s"
  by (simp add: invoke_void_arg_function_def run_native_single)

lemma invoke_single_ok:
  "text_ok E (encoding rwo) v \<Longrightarrow>
   invoke_single_arg_function E f v rwo s
     = run_native E (writer rwo) [f (xml_text E (encoding rwo) v)] s"
  by (simp add: invoke_single_arg_function_def invoke_strings_ok)

lemma scan_arg_nth: "i < length argv \<Longrightarrow> argv ! i = scan_arg argv i"
  by (simp add: scan_arg_def)

lemma start_end_ok:
  "list_all (text_ok E (encoding rwo)) vs \<Longrightarrow>
   (case invoke_strings_function E f vs rwo s of
      (Inl e, s1) \<Rightarrow> (Inl e, s1)
    | (Inr started, s1) \<Rightarrow>
        if Qfalse = started then (Inr Qfalse, s1)
        else rxml_writer_end_element E rwo s1)
   = run_native E (writer rwo) [f (map (xml_text E (encoding rwo)) vs), EndElement] s"
  by (simp add: invoke_strings_function_def encodeStrings_ok bool_result_def
        rxml_writer_end_element_def invoke_void_arg_function_def run_native.simps
        split: prod.splits)

lemma write_element_ok:
  assumes "1 \<le> length argv" and "length argv \<le> 2"
    and "text_ok E (encoding rwo) (scan_arg argv 0)"
    and "text_ok E (encoding rwo) (scan_arg argv 1)"
  shows "rxml_writer_write_element E argv rwo s
           = run_native E (writer rwo) (native_calls E Rxml_writer_write_element argv rwo) s"
proof (cases "Qnil = scan_arg argv 1")
  case True
  with assms show ?thesis
    by (simp add: rxml_writer_write_element_def rb_scan_args_def Let_def native_calls_def
          rxml_writer_start_element_def invoke_single_arg_function_def start_end_ok)
next
  case False
  with assms show ?thesis
    by (simp add: rxml_writer_write_element_def rb_scan_args_def Let_def native_calls_def
          invoke_strings_ok)
qed

lemma write_element_ns_ok:
  assumes "2 \<le> length argv" and "length argv \<le> 4"
    and "text_ok E (encoding rwo) (scan_arg argv 0)"
    and "text_ok E (encoding rwo) (scan_arg argv 1)"
    and "text_ok E (encoding rwo) (scan_arg argv 2)"
    and "text_ok E (encoding rwo) (scan_arg argv 3)"
  shows "rxml_writer_write_element_ns E argv rwo s
           = run_native E (writer rwo) (native_calls E Rxml_writer_write_element_ns argv rwo) s"
proof (cases "Qnil = scan_arg argv 3")
  case True
  have inner: "\<And>x y z. scan_arg [x, y, z] 0 = x" "\<And>x y z. scan_arg [x, y, z] (Suc 0) = y"
    "\<And>x y z. scan_arg [x, y, z] 2 = z"
    by (simp_all add: scan_arg_def)
  from True assms show ?thesis
    by (simp add: rxml_writer_write_element_ns_def rb_scan_args_def Let_def native_calls_def
          rxml_writer_start_element_ns_def start_end_ok inner)
next
  case False
  with assms show ?thesis
    by (simp add: rxml_writer_write_element_ns_def rb_scan_args_def Let_def native_calls_def
          invoke_strings_ok)
qed


lemma arity_of_table:
  assumes "map_of rxml_init_writer m = Some (fn, arity)" and "0 \<le> arity"
  shows "arity_range fn = (nat arity, nat arity)"
  using assms
  by (auto simp: rxml_init_writer_def rb_define_method_def arity_range_def split: if_splits)

lemma nth_scan_arg: "k \<le> length argv \<Longrightarrow> i < k \<Longrightarrow> argv ! i = scan_arg argv i"
  by (simp add: scan_arg_def)

lemma apply_well_formed:
  assumes "fn \<noteq> Rxml_writer_flush" and "fn \<noteq> Rxml_writer_result"
    and "well_formed E fn argv rwo"
  shows "case writer_apply E fn argv rwo s of
           (r, rwo', s') \<Rightarrow>
             (r, s') = run_native E (writer rwo) (native_calls E fn argv rwo) s"
proof -
  from assms(3) have "fst (arity_range fn) \<le> length argv"
    by (simp add: well_formed_def)
  note nth = nth_scan_arg [OF this]
  from assms show ?thesis
    by (cases fn)
       (auto simp: writer_apply_def keep_def well_formed_def arity_range_def text_positions_def
          native_calls_def Let_def writer_method_defs invoke_void_ok invoke_single_ok
          invoke_strings_ok nth rb_scan_args_def run_native_single
          rxml_writer_start_document_def write_element_ok write_element_ns_ok
          split: sum.splits list.splits prod.splits)
qed


lemma native_calls_nonempty:
  assumes "fn \<noteq> Rxml_writer_flush" and "fn \<noteq> Rxml_writer_result"
    and "well_formed E fn argv rwo"
  shows "native_calls E fn argv rwo \<noteq> []"
  using assms
  by (cases fn) (auto simp: native_calls_def well_formed_def Let_def split: sum.splits)

text \<open>
  C3. Every method of the writer other than \<open>flush\<close> and \<open>result\<close> (the start, write,
  end and set operations) keeps the contract \<open>bool_contract\<close>: it raises only before any
  native call, never on a native error. And on well-formed arguments it does not raise:
  it makes the native calls \<open>native_calls\<close> lists for it (one call, or for
  \<open>write_element\<close> and \<open>write_element_ns\<close> without content the start and then the end)
  and returns exactly \<open>true\<close> when none reports \<open>-1\<close>, exactly \<open>false\<close> when one
  does, leaving the native state where the last call made left it.
\<close>

theorem writer_methods_return_status:
  assumes "m \<noteq> ''flush''" and "m \<noteq> ''result''"
  shows "(case writer_send E m argv rwo s of
            (r, rwo', s') \<Rightarrow>
              writer rwo' = writer rwo \<and> bool_contract (writer rwo) s (r, s'))
       \<and> (map_of rxml_init_writer m = Some (fn, arity) \<and> well_formed E fn argv rwo \<longrightarrow>
            native_calls E fn argv rwo \<noteq> [] \<and>
            (case writer_send E m argv rwo s of
               (r, rwo', s') \<Rightarrow>
                 (r, s') = run_native E (writer rwo) (native_calls E fn argv rwo) s))"
proof (intro conjI impI)
  show "case writer_send E m argv rwo s of
          (r, rwo', s') \<Rightarrow>
            writer rwo' = writer rwo \<and> bool_contract (writer rwo) s (r, s')"
    using assms by (rule writer_send_contract)
next
  assume h: "map_of rxml_init_writer m = Some (fn, arity) \<and> well_formed E fn argv rwo"
  then have tbl: "map_of rxml_init_writer m = Some (fn, arity)"
    and wf: "well_formed E fn argv rwo"
    by simp_all
  from rxml_init_writer_names [OF tbl assms]
  have fn: "fn \<noteq> Rxml_writer_flush" "fn \<noteq> Rxml_writer_result"
    by simp_all
  from fn wf show "native_calls E fn argv rwo \<noteq> []"
    by (rule native_calls_nonempty)
  have "\<not> (0 \<le> arity \<and> int (length argv) \<noteq> arity)"
  proof
    assume a: "0 \<le> arity \<and> int (length argv) \<noteq> arity"
    with arity_of_table [OF tbl] have "arity_range fn = (nat arity, nat arity)"
      by simp
    with wf have "length argv = nat arity"
      by (simp add: well_formed_def)
    with a show False
      by auto
  qed
  with tbl have "writer_send E m argv rwo s = writer_apply E fn argv rwo s"
    by (auto simp: writer_send_def)
  with apply_well_formed [OF fn wf, where s = s]
  show "case writer_send E m argv rwo s of
          (r, rwo', s') \<Rightarrow>
            (r, s') = run_native E (writer rwo) (native_calls E fn argv rwo) s"
    by simp
qed

lemmas writer_simps =
  rxml_writer_string_def rxml_writer_start_element_def rxml_writer_end_element_def
  invoke_single_arg_function_def invoke_strings_function_def invoke_void_arg_function_def
  encodeString_def StringValueCStr_def NIL_P_def RTEST_def bool_result_def
  call_ptr_def call_int_def call_void_def rb_utf8_encoding_def

lemma ex_session_made: "rxml_writer_string sim sim_start = (Inr ex_rwo, ex_session)"
  by (simp add: ex_session_def ex_rwo_def writer_simps sim_simps)

lemma map_of_rxml_init_writer:
  "map_of rxml_init_writer ''start_element'' = Some (Rxml_writer_start_element, 1)"
  "map_of rxml_init_writer ''end_element'' = Some (Rxml_writer_end_element, 0)"
  by (simp_all add: rxml_init_writer_def rb_define_method_def)

lemma map_of_write_string:
  "map_of rxml_init_writer ''write_string'' = Some (Rxml_writer_write_string, 1)"
  by (simp add: rxml_init_writer_def rb_define_method_def)

lemma ex_write_string_well_formed:
  "well_formed sim Rxml_writer_write_string [utf8 ''x''] ex_rwo"
  by (simp add: well_formed_def arity_range_def text_positions_def text_ok_def scan_arg_def
        utf8_def sim_def)

lemma ex_write_string_calls:
  "native_calls sim Rxml_writer_write_string [utf8 ''x''] ex_rwo = [WriteString (Some ''x'')]"
  by (simp add: native_calls_def xml_text_def scan_arg_def utf8_def sim_def)

text \<open>
  On the fresh string session: \<open>end_element\<close> with no element open is refused by the
  native writer and returns \<open>false\<close>; \<open>start_element("a")\<close> returns \<open>true\<close>. With \<open>a\<close>
  open, \<open>write_string("x")\<close> is well-formed, makes the one call
  \<open>xmlTextWriterWriteString(writer, "x")\<close> and returns \<open>true\<close>.
\<close>

theorem writer_methods_return_status_witness:
  "writer_send sim ''end_element'' [] ex_rwo ex_session
     = (Inr Qfalse, ex_rwo,
        ex_session\<lparr>trace := trace ex_session @ [CallInt (XmlTextWriter EndElement 2) (- 1)]\<rparr>)
   \<and> bool_contract 2 ex_session
        (Inr Qfalse,
         ex_session\<lparr>trace := trace ex_session @ [CallInt (XmlTextWriter EndElement 2) (- 1)]\<rparr>)
   \<and> fst (writer_send sim ''start_element'' [utf8 ''a''] ex_rwo ex_session) = Inr Qtrue
   \<and> well_formed sim Rxml_writer_write_string [utf8 ''x''] ex_rwo
   \<and> native_calls sim Rxml_writer_write_string [utf8 ''x''] ex_rwo = [WriteString (Some ''x'')]
   \<and> fst (writer_send sim ''write_string'' [utf8 ''x''] ex_rwo ex_open) = Inr Qtrue
   \<and> trace (snd (snd (writer_send sim ''write_string'' [utf8 ''x''] ex_rwo ex_open)))
       = trace ex_open @ [CallInt (XmlTextWriter (WriteString (Some ''x'')) 2) 1]"
proof -
  have e: "writer_send sim ''end_element'' [] ex_rwo ex_session
     = (Inr Qfalse, ex_rwo,
        ex_session\<lparr>trace := trace ex_session @ [CallInt (XmlTextWriter EndElement 2) (- 1)]\<rparr>)"
    by (simp add: writer_send_def map_of_rxml_init_writer writer_apply_def keep_def
          ex_session_def ex_rwo_def writer_simps sim_simps)
  have st: "fst (writer_send sim ''start_element'' [utf8 ''a''] ex_rwo ex_session) = Inr Qtrue"
    by (simp add: writer_send_def map_of_rxml_init_writer writer_apply_def keep_def
          ex_session_def ex_rwo_def writer_simps sim_simps)
  have run: "run_native sim 2 [WriteString (Some ''x'')] ex_open
               = (Inr Qtrue,
                  snd (call_int sim (XmlTextWriter (WriteString (Some ''x'')) 2) ex_open))"
    and tr: "trace (snd (call_int sim (XmlTextWriter (WriteString (Some ''x'')) 2) ex_open))
               = trace ex_open @ [CallInt (XmlTextWriter (WriteString (Some ''x'')) 2) 1]"
    by (simp_all add: run_native.simps ex_open_def ex_session_def ex_rwo_def writer_simps
          sim_simps)
  have w2: "writer ex_rwo = 2"
    by (simp add: ex_rwo_def)
  from writer_methods_return_status
         [where m = "''end_element''" and E = sim and argv = "[]" and rwo = ex_rwo
            and s = ex_session] e
  have c: "bool_contract 2 ex_session
        (Inr Qfalse,
         ex_session\<lparr>trace := trace ex_session @ [CallInt (XmlTextWriter EndElement 2) (- 1)]\<rparr>)"
    by (simp add: w2)
  from writer_methods_return_status
         [where m = "''write_string''" and E = sim and argv = "[utf8 ''x'']" and rwo = ex_rwo
            and s = ex_open and fn = Rxml_writer_write_string and arity = 1]
       map_of_write_string ex_write_string_well_formed
  have "case writer_send sim ''write_string'' [utf8 ''x''] ex_rwo ex_open of
          (r, rwo', s') \<Rightarrow>
            (r, s') = run_native sim (writer ex_rwo)
                        (native_calls sim Rxml_writer_write_string [utf8 ''x''] ex_rwo) ex_open"
    by simp
  then have ws: "fst (writer_send sim ''write_string'' [utf8 ''x''] ex_rwo ex_open) = Inr Qtrue"
    and wt: "trace (snd (snd (writer_send sim ''write_string'' [utf8 ''x''] ex_rwo ex_open)))
       = trace ex_open @ [CallInt (XmlTextWriter (WriteString (Some ''x'')) 2) 1]"
    using run tr
    by (auto simp: ex_write_string_calls w2 split: prod.splits)
  from e c st ex_write_string_well_formed ex_write_string_calls ws wt show ?thesis
    by blast
qed

lemma start_element_returns:
  "fst (rxml_writer_start_element E nm rwo s) = Inr Qtrue
   \<or> fst (rxml_writer_start_element E nm rwo s) = Inr Qfalse
   \<or> (\<exists>e. rxml_writer_start_element E nm rwo s = (Inl e, s))"
  by (simp add: rxml_writer_start_element_def invoke_single_arg_function_def
        invoke_strings_function_def bool_result_def split: sum.splits)

lemma write_element_unfold:
  "rxml_writer_write_element E [nm] rwo s =
     (case rxml_writer_start_element E nm rwo s of
        (Inl e, s1) \<Rightarrow> (Inl e, s1)
      | (Inr started, s1) \<Rightarrow>
          if Qfalse = started then (Inr Qfalse, s1)
          else rxml_writer_end_element E rwo s1)"
  by (simp add: rxml_writer_write_element_def rb_scan_args_def scan_arg_def)

lemma write_element_nil:
  "rxml_writer_write_element E [nm, Qnil] rwo s = rxml_writer_write_element E [nm] rwo s"
  by (simp add: rxml_writer_write_element_def rb_scan_args_def scan_arg_def)

lemma first_failure_stops:
  assumes "bool_contract w s (r, s')" and "calls_made s s' = ev # evs" and "\<not> status_ok ev"
  shows "r = Inr Qfalse \<and> evs = []"
  using assms
  by (cases evs) (auto simp: bool_contract_def Let_def split: sum.splits if_splits)

text \<open>
  C4, as the code has it. When \<open>start_element(name)\<close> returns \<open>true\<close>,
  \<open>write_element(name)\<close> without content (omitted or \<open>nil\<close>) is \<open>start_element(name)\<close>
  followed by \<open>end_element()\<close>: same return value, same native state, same trace. When
  \<open>start_element(name)\<close> returns \<open>false\<close> or raises, \<open>write_element(name)\<close> is that
  call alone: \<open>end_element\<close> is not attempted. And for every composite shortcut: if its
  first native call reports \<open>-1\<close>, it returns \<open>false\<close> and makes no further native call.
\<close>

theorem write_element_decomposition:
  "(fst (rxml_writer_start_element E nm rwo s) = Inr Qtrue
      \<longrightarrow> rxml_writer_write_element E [nm] rwo s = start_then_end E nm rwo s)
   \<and> (fst (rxml_writer_start_element E nm rwo s) \<noteq> Inr Qtrue
      \<longrightarrow> rxml_writer_write_element E [nm] rwo s = rxml_writer_start_element E nm rwo s)
   \<and> rxml_writer_write_element E [nm, Qnil] rwo s = rxml_writer_write_element E [nm] rwo s
   \<and> (m \<in> set composite_shortcuts
      \<longrightarrow> (case writer_send E m argv rwo s of
             (r, rwo', s') \<Rightarrow>
               (case calls_made s s' of
                  [] \<Rightarrow> True
                | ev # evs \<Rightarrow> \<not> status_ok ev \<longrightarrow> r = Inr Qfalse \<and> evs = [])))"
proof (intro conjI impI)
  assume "fst (rxml_writer_start_element E nm rwo s) = Inr Qtrue"
  then show "rxml_writer_write_element E [nm] rwo s = start_then_end E nm rwo s"
    by (cases "rxml_writer_start_element E nm rwo s")
       (simp add: write_element_unfold start_then_end_def)
next
  assume "fst (rxml_writer_start_element E nm rwo s) \<noteq> Inr Qtrue"
  with start_element_returns [of E nm rwo s]
  show "rxml_writer_write_element E [nm] rwo s = rxml_writer_start_element E nm rwo s"
    by (cases "rxml_writer_start_element E nm rwo s") (auto simp: write_element_unfold)
next
  show "rxml_writer_write_element E [nm, Qnil] rwo s = rxml_writer_write_element E [nm] rwo s"
    by (rule write_element_nil)
next
  assume "m \<in> set composite_shortcuts"
  then have "m \<noteq> ''flush''" and "m \<noteq> ''result''"
    by (auto simp: composite_shortcuts_def)
  from writer_send_contract [OF this, where E = E and argv = argv and rwo = rwo and s = s]
  show "case writer_send E m argv rwo s of
          (r, rwo', s') \<Rightarrow>
            (case calls_made s s' of
               [] \<Rightarrow> True
             | ev # evs \<Rightarrow> \<not> status_ok ev \<longrightarrow> r = Inr Qfalse \<and> evs = [])"
    by (auto split: prod.splits list.splits dest: first_failure_stops)
qed

text \<open>
  C4, as the claim has it, fails when the start step fails. With the element \<open>a\<close> open,
  \<open>write_element("")\<close> stops after the refused start and leaves \<open><a\<close>, while the two
  calls \<open>start_element("")\<close>, \<open>end_element()\<close> close \<open>a\<close> and leave \<open><a/>\<close>.
\<close>

theorem write_element_not_start_then_end:
  "fst (rxml_writer_result sim ex_rwo
          (snd (rxml_writer_write_element sim [utf8 []] ex_rwo ex_open)))
     = Inr (utf8 ''<a'')
   \<and> fst (rxml_writer_result sim ex_rwo
          (snd (start_then_end sim (utf8 []) ex_rwo ex_open)))
     = Inr (utf8 ''<a/>'')"
  by (simp add: rxml_writer_write_element_def rb_scan_args_def scan_arg_def
        start_then_end_def rxml_writer_result_def rb_external_str_new_with_enc_def
        ex_open_def ex_session_def ex_rwo_def writer_simps sim_simps)

text \<open>
  With the element \<open>a\<close> open: \<open>write_element("b")\<close> is the two calls and produces
  \<open><a><b/>\<close>; \<open>write_element("")\<close> is the refused \<open>start_element("")\<close> alone.
\<close>

theorem write_element_decomposition_witness:
  "rxml_writer_write_element sim [utf8 ''b''] ex_rwo ex_open
     = start_then_end sim (utf8 ''b'') ex_rwo ex_open
   \<and> fst (rxml_writer_result sim ex_rwo
          (snd (rxml_writer_write_element sim [utf8 ''b''] ex_rwo ex_open)))
     = Inr (utf8 ''<a><b/>'')
   \<and> rxml_writer_write_element sim [utf8 []] ex_rwo ex_open
     = rxml_writer_start_element sim (utf8 []) ex_rwo ex_open"
proof -
  have t: "fst (rxml_writer_start_element sim (utf8 ''b'') ex_rwo ex_open) = Inr Qtrue"
    by (simp add: ex_open_def ex_session_def ex_rwo_def writer_simps sim_simps)
  have f: "fst (rxml_writer_start_element sim (utf8 []) ex_rwo ex_open) \<noteq> Inr Qtrue"
    by (simp add: ex_open_def ex_session_def ex_rwo_def writer_simps sim_simps)
  have r: "fst (rxml_writer_result sim ex_rwo
          (snd (start_then_end sim (utf8 ''b'') ex_rwo ex_open)))
     = Inr (utf8 ''<a><b/>'')"
    by (simp add: start_then_end_def rxml_writer_result_def rb_external_str_new_with_enc_def
        ex_open_def ex_session_def ex_rwo_def writer_simps sim_simps)
  from write_element_decomposition
         [where E = sim and nm = "utf8 ''b''" and rwo = ex_rwo and s = ex_open] t
       write_element_decomposition
         [where E = sim and nm = "utf8 []" and rwo = ex_rwo and s = ex_open] f r
  show ?thesis
    by simp
qed

text \<open>
  The invariant \<open>rwo_inv\<close> holds of every session: each constructor establishes it,
  and a method changes at most the \<open>encoding\<close> field.
\<close>

lemma rwo_inv_string:
  "rwo_inv rwo \<Longrightarrow> output_type rwo = RXMLW_OUTPUT_STRING \<Longrightarrow> \<exists>b. buffer rwo = Some b"
  by (auto simp: rwo_inv_def)

lemma rwo_inv_other:
  "rwo_inv rwo \<Longrightarrow> output_type rwo \<noteq> RXMLW_OUTPUT_STRING \<Longrightarrow> buffer rwo = None"
  by (auto simp: rwo_inv_def)

lemma rwo_inv_doc:
  "rwo_inv rwo \<Longrightarrow> output_type rwo = RXMLW_OUTPUT_DOC \<Longrightarrow> \<exists>d. output rwo = Document d"
  by (auto simp: rwo_inv_def split: VALUE.splits)

lemma constructors_rwo_inv:
  "rxml_writer_io E p io s = (Inr rwo, s') \<Longrightarrow> rwo_inv rwo \<and> output_type rwo = RXMLW_OUTPUT_IO"
  "rxml_writer_file E filename s = (Inr rwo, s') \<Longrightarrow> rwo_inv rwo \<and> output_type rwo = RXMLW_OUTPUT_NONE"
  "rxml_writer_string E s = (Inr rwo, s') \<Longrightarrow> rwo_inv rwo \<and> output_type rwo = RXMLW_OUTPUT_STRING"
  "rxml_writer_doc E s = (Inr rwo, s') \<Longrightarrow> rwo_inv rwo \<and> output_type rwo = RXMLW_OUTPUT_DOC"
  by (auto simp: rxml_writer_io_def rxml_writer_file_def rxml_writer_string_def
        rxml_writer_doc_def rwo_inv_def rxml_document_wrap_def Let_def
        split: prod.splits option.splits sum.splits)

lemma writer_apply_rwo:
  "writer_apply E fn argv rwo s = (r, rwo', s') \<Longrightarrow> rwo' = rwo\<lparr>encoding := encoding rwo'\<rparr>"
  by (cases fn)
     (auto simp: writer_apply_def keep_def rxml_writer_start_document_def Let_def
        split: option.splits sum.splits prod.splits)

lemma writer_send_rwo_inv:
  assumes "writer_send E m argv rwo s = (r, rwo', s')" and "rwo_inv rwo"
  shows "rwo_inv rwo'"
proof -
  have "rwo' = rwo\<lparr>encoding := encoding rwo'\<rparr>"
    using assms(1)
    by (auto simp: writer_send_def split: option.splits if_splits dest: writer_apply_rwo)
  then have "buffer rwo' = buffer rwo" "output_type rwo' = output_type rwo" "output rwo' = output rwo"
    by (metis rxml_writer_object.select_convs rxml_writer_object.surjective rxml_writer_object.update_convs)+
  with assms(2) show ?thesis
    by (simp add: rwo_inv_def)
qed

text \<open>
  C5. Let the native flush succeed with status \<open>ret\<close>, leaving the state \<open>s1\<close>. On the
  string sink \<open>flush\<close> returns the text the buffer holds in \<open>s1\<close>, and then calls
  \<open>xmlBufferEmpty\<close> on the buffer unless its argument is \<open>false\<close> (omitted, \<open>nil\<close> or
  anything else empties); after an emptying flush, a second flush at once returns the
  empty string, provided the native library has by then nothing more to flush
  (\<open>flush_settled\<close>). On every other sink \<open>flush\<close> returns \<open>ret\<close>, the count the
  native flush reported.
\<close>

theorem flush_returns_content_or_count:
  assumes "rwo_inv rwo" and "length argv \<le> 1" and "length argv2 \<le> 1"
    and "call_int E (XmlTextWriter Flush (writer rwo)) s = (ret, s1)" and "ret \<noteq> - 1"
  shows "(output_type rwo = RXMLW_OUTPUT_STRING \<longrightarrow>
            (\<exists>b. buffer rwo = Some b \<and>
               (\<forall>bytes. xmlBuffers (world s1) b = Some bytes \<longrightarrow>
                  rxml_writer_flush E argv rwo s
                    = (Inr (String bytes (encoding rwo)),
                       if argv = [Qfalse] then s1 else call_void E (XmlBufferEmpty b) s1) \<and>
                  (argv \<noteq> [Qfalse] \<longrightarrow>
                   flush_settled E (writer rwo) b (call_void E (XmlBufferEmpty b) s1) \<longrightarrow>
                   fst (rxml_writer_flush E argv2 rwo (snd (rxml_writer_flush E argv rwo s)))
                     = Inr (String [] (encoding rwo))))))
       \<and> (output_type rwo \<noteq> RXMLW_OUTPUT_STRING \<longrightarrow>
            rxml_writer_flush E argv rwo s = (Inr (Fixnum ret), s1))"
proof (intro conjI impI)
  assume "output_type rwo \<noteq> RXMLW_OUTPUT_STRING"
  with assms show "rxml_writer_flush E argv rwo s = (Inr (Fixnum ret), s1)"
    by (simp add: rxml_writer_flush_def rb_scan_args_def rwo_inv_other)
next
  assume "output_type rwo = RXMLW_OUTPUT_STRING"
  with assms(1) obtain b where b: "buffer rwo = Some b"
    by (auto dest: rwo_inv_string)
  have empt: "(NIL_P (scan_arg argv 0) \<or> RTEST (scan_arg argv 0)) = (argv \<noteq> [Qfalse])"
    using assms(2) by (cases argv) (auto simp: scan_arg_def NIL_P_def RTEST_def)
  have first: "rxml_writer_flush E argv rwo s
                    = (Inr (String bytes (encoding rwo)),
                       if argv = [Qfalse] then s1 else call_void E (XmlBufferEmpty b) s1)"
    if "xmlBuffers (world s1) b = Some bytes" for bytes
    using assms b that empt
    by (simp add: rxml_writer_flush_def rb_scan_args_def rb_external_str_new_with_enc_def)
  have second: "fst (rxml_writer_flush E argv2 rwo (snd (rxml_writer_flush E argv rwo s)))
                     = Inr (String [] (encoding rwo))"
    if "xmlBuffers (world s1) b = Some bytes" and "argv \<noteq> [Qfalse]"
      and "flush_settled E (writer rwo) b (call_void E (XmlBufferEmpty b) s1)"
    for bytes
  proof -
    let ?s2 = "call_void E (XmlBufferEmpty b) s1"
    obtain ret2 s3 where c2: "call_int E (XmlTextWriter Flush (writer rwo)) ?s2 = (ret2, s3)"
      by (cases "call_int E (XmlTextWriter Flush (writer rwo)) ?s2")
    have s2: "snd (rxml_writer_flush E argv rwo s) = ?s2"
      using first [OF that(1)] that(2) by simp
    have "fst (rxml_writer_flush E argv2 rwo ?s2) = Inr (String [] (encoding rwo))"
      using c2 that(3) assms(3) b
      by (simp add: rxml_writer_flush_def rb_scan_args_def rb_external_str_new_with_enc_def
            flush_settled_def Let_def)
    then show ?thesis
      by (simp only: s2)
  qed
  show "\<exists>b. buffer rwo = Some b \<and>
               (\<forall>bytes. xmlBuffers (world s1) b = Some bytes \<longrightarrow>
                  rxml_writer_flush E argv rwo s
                    = (Inr (String bytes (encoding rwo)),
                       if argv = [Qfalse] then s1 else call_void E (XmlBufferEmpty b) s1) \<and>
                  (argv \<noteq> [Qfalse] \<longrightarrow>
                   flush_settled E (writer rwo) b (call_void E (XmlBufferEmpty b) s1) \<longrightarrow>
                   fst (rxml_writer_flush E argv2 rwo (snd (rxml_writer_flush E argv rwo s)))
                     = Inr (String [] (encoding rwo))))"
    using b first second by blast
qed

lemma ex_rwo_inv: "rwo_inv ex_rwo"
  by (simp add: rwo_inv_def ex_rwo_def)

lemma ex_flushed_call: "call_int sim (XmlTextWriter Flush (writer ex_rwo)) ex_open = (2, ex_flushed)"
  by (simp add: ex_flushed_def ex_open_def ex_session_def ex_rwo_def writer_simps sim_simps)

lemma ex_flushed_buffer: "xmlBuffers (world ex_flushed) 1 = Some ''<a''"
  by (simp add: ex_flushed_def ex_open_def ex_session_def ex_rwo_def writer_simps sim_simps)

lemma ex_flushed_settled:
  "flush_settled sim 2 1 (call_void sim (XmlBufferEmpty 1) ex_flushed)"
  by (simp add: flush_settled_def ex_flushed_def ex_open_def ex_session_def ex_rwo_def
        writer_simps sim_simps)

text \<open>
  With \<open><a\<close> waiting in the string session: \<open>flush\<close> returns \<open><a\<close> and a second
  \<open>flush\<close> returns the empty string; \<open>flush(false)\<close> returns \<open><a\<close> and leaves the
  buffer as the native flush left it; on a stream session \<open>flush\<close> returns the count 2.
\<close>

theorem flush_returns_content_or_count_witness:
  "fst (rxml_writer_flush sim [] ex_rwo ex_open) = Inr (utf8 ''<a'')
   \<and> fst (rxml_writer_flush sim [] ex_rwo (snd (rxml_writer_flush sim [] ex_rwo ex_open)))
       = Inr (utf8 [])
   \<and> rxml_writer_flush sim [Qfalse] ex_rwo ex_open = (Inr (utf8 ''<a''), ex_flushed)
   \<and> rxml_writer_flush sim [] ex_io_rwo ex_open = (Inr (Fixnum 2), ex_flushed)"
proof -
  have two: "(2::int) \<noteq> - 1" and len: "length ([]::VALUE list) \<le> 1"
    and len1: "length [Qfalse] \<le> 1"
    by simp_all
  have io: "rwo_inv ex_io_rwo" and iot: "output_type ex_io_rwo \<noteq> RXMLW_OUTPUT_STRING"
    by (simp_all add: rwo_inv_def ex_io_rwo_def)
  have ioc: "call_int sim (XmlTextWriter Flush (writer ex_io_rwo)) ex_open = (2, ex_flushed)"
    using ex_flushed_call by (simp add: ex_io_rwo_def ex_rwo_def)
  have st: "output_type ex_rwo = RXMLW_OUTPUT_STRING" and buf: "buffer ex_rwo = Some 1"
    and wr: "writer ex_rwo = 2" and enc: "encoding ex_rwo = ''UTF-8''"
    by (simp_all add: ex_rwo_def)
  from flush_returns_content_or_count [OF ex_rwo_inv len len ex_flushed_call two] st
  have "\<exists>b. buffer ex_rwo = Some b \<and>
          (\<forall>bytes. xmlBuffers (world ex_flushed) b = Some bytes \<longrightarrow>
             rxml_writer_flush sim [] ex_rwo ex_open
               = (Inr (String bytes (encoding ex_rwo)),
                  if [] = [Qfalse] then ex_flushed
                  else call_void sim (XmlBufferEmpty b) ex_flushed) \<and>
             ([] \<noteq> [Qfalse] \<longrightarrow>
              flush_settled sim (writer ex_rwo) b (call_void sim (XmlBufferEmpty b) ex_flushed) \<longrightarrow>
              fst (rxml_writer_flush sim [] ex_rwo (snd (rxml_writer_flush sim [] ex_rwo ex_open)))
                = Inr (String [] (encoding ex_rwo))))"
    by blast
  with buf ex_flushed_buffer ex_flushed_settled wr enc
  have a: "fst (rxml_writer_flush sim [] ex_rwo ex_open) = Inr (utf8 ''<a'')"
    and b: "fst (rxml_writer_flush sim [] ex_rwo (snd (rxml_writer_flush sim [] ex_rwo ex_open)))
       = Inr (utf8 [])"
    by (auto simp: utf8_def)
  from flush_returns_content_or_count [OF ex_rwo_inv len1 len ex_flushed_call two] st
  have "\<exists>b. buffer ex_rwo = Some b \<and>
          (\<forall>bytes. xmlBuffers (world ex_flushed) b = Some bytes \<longrightarrow>
             rxml_writer_flush sim [Qfalse] ex_rwo ex_open
               = (Inr (String bytes (encoding ex_rwo)),
                  if [Qfalse] = [Qfalse] then ex_flushed
                  else call_void sim (XmlBufferEmpty b) ex_flushed))"
    by blast
  with buf ex_flushed_buffer enc
  have c: "rxml_writer_flush sim [Qfalse] ex_rwo ex_open = (Inr (utf8 ''<a''), ex_flushed)"
    by (auto simp: utf8_def)
  from flush_returns_content_or_count [OF io len len ioc two] iot
  have d: "rxml_writer_flush sim [] ex_io_rwo ex_open = (Inr (Fixnum 2), ex_flushed)"
    by blast
  from a b c d show ?thesis
    by blast
qed

lemma calls_made_call_int:
  "call_int E c s = (r, s1) \<Longrightarrow> calls_made s s1 = [CallInt c r]"
  by (auto simp: calls_made_def call_int_def split: prod.splits)

text \<open>
  C6. \<open>result\<close> makes one native call, the flush, and when the flush succeeds returns
  by sink: the Document held in \<open>output\<close> for the document sink, the text the buffer
  holds after the flush for the string sink, \<open>nil\<close> for the stream and file sinks.
\<close>

theorem result_by_sink:
  assumes "rwo_inv rwo"
    and "call_int E (XmlTextWriter Flush (writer rwo)) s = (ret, s1)" and "ret \<noteq> - 1"
  shows "snd (rxml_writer_result E rwo s) = s1
       \<and> calls_made s (snd (rxml_writer_result E rwo s))
            = [CallInt (XmlTextWriter Flush (writer rwo)) ret]
       \<and> (case output_type rwo of
            RXMLW_OUTPUT_DOC \<Rightarrow>
              (\<exists>d. output rwo = Document d \<and> fst (rxml_writer_result E rwo s) = Inr (Document d))
          | RXMLW_OUTPUT_STRING \<Rightarrow>
              (\<exists>b. buffer rwo = Some b \<and>
                 (\<forall>bytes. xmlBuffers (world s1) b = Some bytes \<longrightarrow>
                    fst (rxml_writer_result E rwo s) = Inr (String bytes (encoding rwo))))
          | RXMLW_OUTPUT_IO \<Rightarrow> fst (rxml_writer_result E rwo s) = Inr Qnil
          | RXMLW_OUTPUT_NONE \<Rightarrow> fst (rxml_writer_result E rwo s) = Inr Qnil)"
proof -
  have st: "snd (rxml_writer_result E rwo s) = s1"
    using assms(2,3)
    by (simp add: rxml_writer_result_def
          split: rxmlw_output_type.splits option.splits)
  have "(case output_type rwo of
            RXMLW_OUTPUT_DOC \<Rightarrow>
              (\<exists>d. output rwo = Document d \<and> fst (rxml_writer_result E rwo s) = Inr (Document d))
          | RXMLW_OUTPUT_STRING \<Rightarrow>
              (\<exists>b. buffer rwo = Some b \<and>
                 (\<forall>bytes. xmlBuffers (world s1) b = Some bytes \<longrightarrow>
                    fst (rxml_writer_result E rwo s) = Inr (String bytes (encoding rwo))))
          | RXMLW_OUTPUT_IO \<Rightarrow> fst (rxml_writer_result E rwo s) = Inr Qnil
          | RXMLW_OUTPUT_NONE \<Rightarrow> fst (rxml_writer_result E rwo s) = Inr Qnil)"
    using assms rwo_inv_doc [of rwo] rwo_inv_string [of rwo]
    by (cases "output_type rwo")
       (auto simp: rxml_writer_result_def rb_external_str_new_with_enc_def)
  with st calls_made_call_int [OF assms(2)] show ?thesis
    by simp
qed

text \<open>
  The Document of the document sink is the wrapper of the native document that
  \<open>xmlNewTextWriterDoc\<close> made.
\<close>

lemma doc_session:
  assumes "rxml_writer_doc E s = (Inr rwo, s')"
  shows "output_type rwo = RXMLW_OUTPUT_DOC
       \<and> (\<exists>xdoc. doc_out (world s') = Some xdoc \<and> output rwo = rxml_document_wrap xdoc)"
  using assms
  by (auto simp: rxml_writer_doc_def Let_def split: prod.splits option.splits)

text \<open>
  With \<open><a\<close> waiting: the string session returns \<open><a\<close>, a stream session \<open>nil\<close>, a
  document session its Document.
\<close>

theorem result_by_sink_witness:
  "rxml_writer_result sim ex_rwo ex_open = (Inr (utf8 ''<a''), ex_flushed)
   \<and> rxml_writer_result sim ex_io_rwo ex_open = (Inr Qnil, ex_flushed)
   \<and> rxml_writer_result sim ex_doc_rwo ex_open = (Inr (Document 1), ex_flushed)"
proof -
  have two: "(2::int) \<noteq> - 1"
    by simp
  have io: "rwo_inv ex_io_rwo" and iot: "output_type ex_io_rwo = RXMLW_OUTPUT_IO"
    and dc: "rwo_inv ex_doc_rwo" and dct: "output_type ex_doc_rwo = RXMLW_OUTPUT_DOC"
    and dco: "output ex_doc_rwo = Document 1"
    by (simp_all add: rwo_inv_def ex_io_rwo_def ex_doc_rwo_def)
  have ioc: "call_int sim (XmlTextWriter Flush (writer ex_io_rwo)) ex_open = (2, ex_flushed)"
    and dcc: "call_int sim (XmlTextWriter Flush (writer ex_doc_rwo)) ex_open = (2, ex_flushed)"
    using ex_flushed_call by (simp_all add: ex_io_rwo_def ex_doc_rwo_def ex_rwo_def)
  have st: "output_type ex_rwo = RXMLW_OUTPUT_STRING" and buf: "buffer ex_rwo = Some 1"
    and enc: "encoding ex_rwo = ''UTF-8''"
    by (simp_all add: ex_rwo_def)
  from result_by_sink [OF ex_rwo_inv ex_flushed_call two] st buf enc ex_flushed_buffer
  have a: "rxml_writer_result sim ex_rwo ex_open = (Inr (utf8 ''<a''), ex_flushed)"
    by (cases "rxml_writer_result sim ex_rwo ex_open") (auto simp: utf8_def)
  from result_by_sink [OF io ioc two] iot
  have b: "rxml_writer_result sim ex_io_rwo ex_open = (Inr Qnil, ex_flushed)"
    by (cases "rxml_writer_result sim ex_io_rwo ex_open") auto
  from result_by_sink [OF dc dcc two] dct dco
  have c: "rxml_writer_result sim ex_doc_rwo ex_open = (Inr (Document 1), ex_flushed)"
    by (cases "rxml_writer_result sim ex_doc_rwo ex_open") auto
  from a b c show ?thesis
    by blast
qed

text \<open>
  C10. When the native flush reports \<open>-1\<close>, \<open>flush\<close> and \<open>result\<close> raise the error
  made of the native library's last error, read after the failed flush; and whatever
  happens, neither returns \<open>false\<close>.
\<close>

theorem flush_and_result_raise:
  assumes "rwo_inv rwo"
  shows "(length argv \<le> 1 \<longrightarrow>
          call_int E (XmlTextWriter Flush (writer rwo)) s = (- 1, s1) \<longrightarrow>
            rxml_writer_flush E argv rwo s
              = (Inl (rxml_raise (xmlGetLastError (world s1))), s1)
            \<and> rxml_writer_result E rwo s
              = (Inl (rxml_raise (xmlGetLastError (world s1))), s1))
       \<and> fst (rxml_writer_flush E argv rwo s) \<noteq> Inr Qfalse
       \<and> fst (rxml_writer_result E rwo s) \<noteq> Inr Qfalse"
  using assms rwo_inv_doc [of rwo]
  by (auto simp: rxml_writer_flush_def rxml_writer_result_def rb_scan_args_def Let_def
        rb_external_str_new_with_enc_def
        split: prod.splits option.splits rxmlw_output_type.splits if_splits)

lemma ex_broken_call:
  "call_int sim (XmlTextWriter Flush (writer ex_rwo)) ex_broken
     = (- 1, ex_broken\<lparr>world := (world ex_broken)\<lparr>xmlGetLastError := ''flush error''\<rparr>,
                      trace := trace ex_broken @ [CallInt (XmlTextWriter Flush 2) (- 1)]\<rparr>)"
  by (simp add: ex_broken_def ex_open_def ex_session_def ex_rwo_def writer_simps sim_simps)

text \<open>
  With a writer whose flush fails, both raise the error \<open>flush error\<close>.
\<close>

theorem flush_and_result_raise_witness:
  "fst (rxml_writer_flush sim [] ex_rwo ex_broken) = Inl (XMLError ''flush error'')
   \<and> fst (rxml_writer_result sim ex_rwo ex_broken) = Inl (XMLError ''flush error'')"
proof -
  have len: "length ([]::VALUE list) \<le> 1"
    by simp
  from flush_and_result_raise [OF ex_rwo_inv, where argv = "[]" and E = sim and s = ex_broken]
       len ex_broken_call
  show ?thesis
    by (simp add: rxml_raise_def)
qed

lemma closed_callback:
  assumes "rwos m context = Some rwo" and "closed rwo \<noteq> 0"
  shows "rxml_writer_write_callback context buf len m = Some (0, m)"
  using assms by (simp add: rxml_writer_write_callback_def)

lemma closed_push:
  assumes "rwos m context = Some rwo" and "closed rwo \<noteq> 0"
  shows "xmlOutputBufferWrite context chunks m = Some m"
  using assms
  by (induction chunks) (simp_all add: closed_callback)

text \<open>
  C7. Once \<open>closed\<close> is set, the write callback returns 0 and leaves the byte sinks as
  they were. \<open>rxml_writer_free\<close> sets the flag before it hands the writer to
  \<open>xmlFreeTextWriter\<close>: whatever output the native writer still pushes through the
  callback while it is released, nothing reaches the sink.
\<close>

theorem closed_callback_forwards_nothing:
  assumes "rwos m context = Some rwo"
  shows "(closed rwo \<noteq> 0 \<longrightarrow> rxml_writer_write_callback context buf len m = Some (0, m))
       \<and> (\<exists>m'. rxml_writer_free E pending context (m, s)
                  = Some (m', call_void E (XmlFreeTextWriter (writer rwo)) s)
               \<and> written m' = written m
               \<and> rwos m' context = None)"
proof -
  let ?m1 = "m\<lparr>rwos := (rwos m)(context \<mapsto> rwo\<lparr>closed := 1\<rparr>)\<rparr>"
  have "rwos ?m1 context = Some (rwo\<lparr>closed := 1\<rparr>)" and "closed (rwo\<lparr>closed := 1\<rparr>) \<noteq> 0"
    by simp_all
  then have "xmlOutputBufferWrite context pending ?m1 = Some ?m1"
    by (rule closed_push)
  with assms show ?thesis
    by (simp add: rxml_writer_free_def closed_callback)
qed

lemma ex_mem_rwo: "rwos ex_mem 9 = Some ex_io_rwo"
  by (simp add: ex_mem_def)

text \<open>
  A stream session released with \<open><a\<close> and \<open>/>\<close> unflushed: the sink receives
  nothing, whereas the same two chunks pushed while the session is open reach it.
\<close>

theorem closed_callback_forwards_nothing_witness:
  "(\<exists>m'. rxml_writer_free sim [''<a'', ''/>''] 9 (ex_mem, ex_open)
            = Some (m', call_void sim (XmlFreeTextWriter 2) ex_open)
         \<and> written m' = [] \<and> rwos m' 9 = None)
   \<and> xmlOutputBufferWrite 9 [''<a'', ''/>''] ex_mem
       = Some (ex_mem\<lparr>written := [(Object ''StringIO'', ''<a''), (Object ''StringIO'', ''/>'')]\<rparr>)"
proof -
  have "xmlOutputBufferWrite 9 [''<a'', ''/>''] ex_mem
       = Some (ex_mem\<lparr>written := [(Object ''StringIO'', ''<a''), (Object ''StringIO'', ''/>'')]\<rparr>)"
    by (simp add: ex_mem_def ex_io_rwo_def rxml_writer_write_callback_def
          rxml_write_callback_def)
  with closed_callback_forwards_nothing
         [OF ex_mem_rwo, where E = sim and pending = "[''<a'', ''/>'']" and s = ex_open]
  show ?thesis
    by (simp add: ex_io_rwo_def ex_mem_def)
qed

end
